theory Spec2Isabelle
  imports Complex_Main
begin

section \<open>The hook useServerSentEvents as a state machine\<close>

text \<open>
  The development embeds \<^verbatim>\<open>src/hooks/useServerSentEvents.ts\<close>. Each function of the
  hook becomes a function on one record holding everything the hook's closures share:
  the four \<^verbatim>\<open>useState\<close> cells, the three \<^verbatim>\<open>useRef\<close> cells, and the parts
  of the environment the hook acts on (the \<^verbatim>\<open>EventSource\<close> objects it constructed, the
  timeouts it has pending, the consumer callbacks it invoked).

  Conventions of the model:
  \<^item> A JavaScript number is a finite value, an infinity or NaN. The model stores such
    numbers and computes with none of them: the delay that
    \<^verbatim>\<open>calculateRetryDelay(attempt)\<close> returns is the result of the runtime's arithmetic
    (IEEE doubles, \<^verbatim>\<open>Math.pow\<close>, \<^verbatim>\<open>Math.random\<close>) and is an argument \<open>delay\<close> of
    the function that schedules the retry. Attempt counts are natural numbers;
    \<^verbatim>\<open>maxAttempts\<close> is an integer.
  \<^item> A state setter writes its cell at once. The variable \<^verbatim>\<open>retryCount\<close> that
    \<^verbatim>\<open>errorHandler\<close> reads is the value captured by the closure when the handlers were
    created; it is an argument of \<open>errorHandler\<close>.
  \<^item> Consumer callbacks are optional; a registered callback is recorded in \<open>calls\<close>
    when the hook invokes it, and returns normally, so the \<^verbatim>\<open>catch\<close> block of the
    message handler runs exactly when decoding throws.
  \<^item> React renders the component again after a state change, and whenever its parent
    renders. \<^verbatim>\<open>retryConfig\<close> is a new object at every render, so the memoised
    functions and with them the dependencies of the effect change every time: after each
    render the cleanup of the effect runs, and then its body. This is the action
    \<open>Render\<close>, which may happen at any point while the effect is mounted.
\<close>

subsection \<open>Data\<close>

datatype SSEError = SSEError (message: string) (code: "string option")

datatype SSEStatus = CONNECTING | OPEN | CLOSED | ERROR

text \<open>
  The values of the type \<^verbatim>\<open>number\<close>. The finite ones are real numbers; which of them
  a double can hold, and how an operation rounds, is not modelled.
\<close>

datatype number = Finite real | PosInfinity | NegInfinity | NaN

record RetryConfig =
  maxAttempts :: int
  initialDelayMs :: number
  maxDelayMs :: number
  backoffFactor :: number
  shouldRetry :: "(SSEError \<Rightarrow> nat \<Rightarrow> bool) option"
  jitterFactor :: "number option"

text \<open>
  \<^verbatim>\<open>Partial<RetryConfig>\<close>: \<open>None\<close> is a key that is not given. The two optional
  fields may also be given with the value \<^verbatim>\<open>undefined\<close> (\<open>Some None\<close>), which the
  object spread copies over the default.
\<close>

record PartialRetryConfig =
  p_maxAttempts :: "int option"
  p_initialDelayMs :: "number option"
  p_maxDelayMs :: "number option"
  p_backoffFactor :: "number option"
  p_shouldRetry :: "(SSEError \<Rightarrow> nat \<Rightarrow> bool) option option"
  p_jitterFactor :: "number option option"

text \<open>The literal \<^verbatim>\<open>0.1\<close> is the double \<open>3602879701896397 / 2 ^ 55\<close>.\<close>

definition DEFAULT_RETRY_CONFIG :: RetryConfig where
  "DEFAULT_RETRY_CONFIG =
     \<lparr> maxAttempts = 3, initialDelayMs = Finite 1000, maxDelayMs = Finite 30000,
       backoffFactor = Finite 2, shouldRetry = Some (\<lambda>e n. True),
       jitterFactor = Some (Finite (3602879701896397 / 2 ^ 55)) \<rparr>"

definition spread :: "'v \<Rightarrow> 'v option \<Rightarrow> 'v" where
  "spread d v = (case v of None \<Rightarrow> d | Some x \<Rightarrow> x)"

text \<open>\<^verbatim>\<open>{ ...DEFAULT_RETRY_CONFIG, ...options.retry }\<close>, with \<^verbatim>\<open>options.retry\<close> possibly absent.\<close>

definition retryConfig :: "PartialRetryConfig option \<Rightarrow> RetryConfig" where
  "retryConfig r =
     (case r of
        None \<Rightarrow> DEFAULT_RETRY_CONFIG
      | Some p \<Rightarrow>
          \<lparr> maxAttempts = spread (maxAttempts DEFAULT_RETRY_CONFIG) (p_maxAttempts p),
            initialDelayMs = spread (initialDelayMs DEFAULT_RETRY_CONFIG) (p_initialDelayMs p),
            maxDelayMs = spread (maxDelayMs DEFAULT_RETRY_CONFIG) (p_maxDelayMs p),
            backoffFactor = spread (backoffFactor DEFAULT_RETRY_CONFIG) (p_backoffFactor p),
            shouldRetry = spread (shouldRetry DEFAULT_RETRY_CONFIG) (p_shouldRetry p),
            jitterFactor = spread (jitterFactor DEFAULT_RETRY_CONFIG) (p_jitterFactor p) \<rparr>)"

subsection \<open>Options, environment and state\<close>

text \<open>
  \<^verbatim>\<open>UseSSEOptions<T>\<close>. A callback field says whether the consumer registered the
  callback. \<open>parseData\<close> returns \<open>None\<close> where the consumer's decoder throws.
\<close>

record 'a UseSSEOptions =
  onMessage :: bool
  onError :: bool
  onOpen :: bool
  onClose :: bool
  withCredentials :: "bool option"
  eventName :: "string option"
  parseData :: "(string \<Rightarrow> 'a option) option"
  retry :: "PartialRetryConfig option"

datatype handler = MessageHandler | ErrorHandler | OpenHandler

text \<open>
  An \<^verbatim>\<open>EventSource\<close> object of the transport: the arguments it was constructed with,
  whether \<^verbatim>\<open>close()\<close> was called on it, and its listeners in the order they were added.
\<close>

record EventSource =
  es_url :: string
  es_withCredentials :: "bool option"
  es_closed :: bool
  es_listeners :: "(string \<times> handler) list"

text \<open>
  A pending \<^verbatim>\<open>setTimeout\<close>: its id, the \<^verbatim>\<open>attempt\<close> its callback closes over, and
  the delay it was given.
\<close>

datatype timeout = Timeout (timeout_id: nat) (timeout_attempt: nat) (timeout_delay: number)

text \<open>
  The event handed to \<^verbatim>\<open>onError\<close>: the transport's own event, or the
  \<^verbatim>\<open>new ErrorEvent('error', { error })\<close> made by the message handler.
\<close>

datatype error_event = TransportEvent | ErrorEvent SSEError

datatype callback =
  CalledOnMessage string | CalledOnError error_event | CalledOnOpen | CalledOnClose

record 'a hook =
  status :: SSEStatus
  data :: "'a option"
  error :: "SSEError option"
  retryCount :: nat
  eventSourceRef :: "nat option"
  retryTimeoutRef :: "nat option"
  isMounted :: bool
  sources :: "EventSource list"
  timeouts :: "timeout list"
  timeoutsSet :: nat
  calls :: "callback list"
  effectSource :: "nat option"

text \<open>
  The cells as \<^verbatim>\<open>useState\<close> and \<^verbatim>\<open>useRef\<close> initialise them, in an environment
  where nothing has happened yet: what the hook returns at the first render, before the
  effect has run. \<open>eventSourceRef\<close> holds the index in \<open>sources\<close> of the current
  \<^verbatim>\<open>EventSource\<close>; \<open>timeoutsSet\<close> counts the calls of \<^verbatim>\<open>setTimeout\<close>, whose ids
  are 1, 2, ...; \<open>effectSource\<close> is the \<^verbatim>\<open>EventSource\<close> that the cleanup function
  of the effect is bound to, which React keeps while the effect is mounted.
\<close>

definition initial :: "'a hook" where
  "initial =
     \<lparr> status = CLOSED, data = None, error = None, retryCount = 0,
       eventSourceRef = None, retryTimeoutRef = None, isMounted = True,
       sources = [], timeouts = [], timeoutsSet = 0, calls = [], effectSource = None \<rparr>"

subsection \<open>The transport and the timers\<close>

definition update_source :: "nat \<Rightarrow> (EventSource \<Rightarrow> EventSource) \<Rightarrow> 'a hook \<Rightarrow> 'a hook" where
  "update_source i f s =
     (if i < length (sources s) then s\<lparr>sources := (sources s)[i := f (sources s ! i)]\<rparr> else s)"

text \<open>\<^verbatim>\<open>sse.close()\<close>\<close>

definition es_close :: "nat \<Rightarrow> 'a hook \<Rightarrow> 'a hook" where
  "es_close i s = update_source i (\<lambda>e. e\<lparr>es_closed := True\<rparr>) s"

text \<open>\<^verbatim>\<open>sse.addEventListener(name, h)\<close> and \<^verbatim>\<open>sse.removeEventListener(name, h)\<close>\<close>

definition addEventListener :: "nat \<Rightarrow> string \<Rightarrow> handler \<Rightarrow> 'a hook \<Rightarrow> 'a hook" where
  "addEventListener i name h s =
     update_source i (\<lambda>e. e\<lparr>es_listeners := es_listeners e @ [(name, h)]\<rparr>) s"

definition removeEventListener :: "nat \<Rightarrow> string \<Rightarrow> handler \<Rightarrow> 'a hook \<Rightarrow> 'a hook" where
  "removeEventListener i name h s =
     update_source i (\<lambda>e. e\<lparr>es_listeners := removeAll (name, h) (es_listeners e)\<rparr>) s"

text \<open>\<^verbatim>\<open>setTimeout(callback, delay)\<close>, where the callback closes over \<open>attempt\<close>.\<close>

definition setTimeout :: "nat \<Rightarrow> number \<Rightarrow> 'a hook \<Rightarrow> nat \<times> 'a hook" where
  "setTimeout attempt delay s =
     (let t = Suc (timeoutsSet s)
      in (t, s\<lparr>timeouts := timeouts s @ [Timeout t attempt delay], timeoutsSet := t\<rparr>))"

definition clearTimeout :: "nat \<Rightarrow> 'a hook \<Rightarrow> 'a hook" where
  "clearTimeout t s = s\<lparr>timeouts := filter (\<lambda>x. timeout_id x \<noteq> t) (timeouts s)\<rparr>"

text \<open>\<^verbatim>\<open>if (retryTimeoutRef.current) clearTimeout(retryTimeoutRef.current)\<close>\<close>

definition clearRetryTimeout :: "'a hook \<Rightarrow> 'a hook" where
  "clearRetryTimeout s = (case retryTimeoutRef s of None \<Rightarrow> s | Some t \<Rightarrow> clearTimeout t s)"

subsection \<open>Template literals\<close>

definition digit :: "nat \<Rightarrow> char" where
  "digit d = ''0123456789'' ! d"

fun show_nat :: "nat \<Rightarrow> string" where
  "show_nat n = (if n < 10 then [digit n] else show_nat (n div 10) @ [digit (n mod 10)])"

declare show_nat.simps [simp del]

definition show_int :: "int \<Rightarrow> string" where
  "show_int i = (if i < 0 then ''-'' @ show_nat (nat (- i)) else show_nat (nat i))"

subsection \<open>The functions of the hook\<close>

definition close :: "'a UseSSEOptions \<Rightarrow> 'a hook \<Rightarrow> 'a hook" where
  "close opts s =
     clearRetryTimeout
       (case eventSourceRef s of
          None \<Rightarrow> s
        | Some h \<Rightarrow>
            (es_close h s)
              \<lparr>eventSourceRef := None, status := CLOSED,
               calls := calls s @ (if onClose opts then [CalledOnClose] else [])\<rparr>)"

definition createEventSource :: "string \<Rightarrow> 'a UseSSEOptions \<Rightarrow> 'a hook \<Rightarrow> nat \<times> 'a hook" where
  "createEventSource url opts s =
     (let s1 = (case eventSourceRef s of None \<Rightarrow> s | Some h \<Rightarrow> es_close h s);
          sse = length (sources s1);
          s2 = s1\<lparr>sources := sources s1 @
                  [\<lparr>es_url = url, es_withCredentials = withCredentials opts,
                    es_closed = False, es_listeners = []\<rparr>]\<rparr>
      in (sse, s2\<lparr>eventSourceRef := Some sse, status := CONNECTING\<rparr>))"

text \<open>The callback that \<^verbatim>\<open>attemptReconnect(attempt)\<close> hands to \<^verbatim>\<open>setTimeout\<close>.\<close>

definition retryCallback :: "string \<Rightarrow> 'a UseSSEOptions \<Rightarrow> nat \<Rightarrow> 'a hook \<Rightarrow> 'a hook" where
  "retryCallback url opts attempt s =
     (if \<not> isMounted s then s
      else snd (createEventSource url opts (s\<lparr>retryCount := attempt + 1\<rparr>)))"

text \<open>
  \<open>delay\<close> is what \<^verbatim>\<open>calculateRetryDelay(attempt)\<close> returns; it is read only where
  the source calls that function.
\<close>

definition attemptReconnect :: "'a UseSSEOptions \<Rightarrow> number \<Rightarrow> nat \<Rightarrow> 'a hook \<Rightarrow> 'a hook" where
  "attemptReconnect opts delay attempt s =
     (if \<not> isMounted s then s
      else if maxAttempts (retryConfig (retry opts)) \<le> int attempt then
        s\<lparr>status := ERROR,
          error := Some (SSEError
            (''Failed to connect after '' @ show_int (maxAttempts (retryConfig (retry opts)))
               @ '' attempts'')
            (Some ''MAX_RETRY_EXCEEDED''))\<rparr>
      else
        (let (t, s1) = setTimeout attempt delay s
         in s1\<lparr>retryTimeoutRef := Some t\<rparr>))"

definition messageHandler ::
  "(string \<Rightarrow> 'a option) \<Rightarrow> 'a UseSSEOptions \<Rightarrow> string \<Rightarrow> 'a hook \<Rightarrow> 'a hook" where
  "messageHandler JSON_parse opts event_data s =
     (if \<not> isMounted s then s
      else
        (case (case parseData opts of
                 Some parse \<Rightarrow> parse event_data
               | None \<Rightarrow> JSON_parse event_data) of
           Some parsedData \<Rightarrow>
             s\<lparr>data := Some parsedData,
               calls := calls s @ (if onMessage opts then [CalledOnMessage event_data] else [])\<rparr>
         | None \<Rightarrow>
             (let err = SSEError ''Failed to parse event data'' (Some ''PARSE_ERROR'')
              in s\<lparr>error := Some err,
                   calls := calls s @
                     (if onError opts then [CalledOnError (ErrorEvent err)] else [])\<rparr>)))"

text \<open>
  \<^verbatim>\<open>retryConfig.shouldRetry?.(currentError, retryCount)\<close> as a condition: without a
  predicate the optional call yields \<^verbatim>\<open>undefined\<close>, which is falsy.
\<close>

definition shouldRetry_call :: "RetryConfig \<Rightarrow> SSEError \<Rightarrow> nat \<Rightarrow> bool" where
  "shouldRetry_call cfg err attemptCount =
     (case shouldRetry cfg of None \<Rightarrow> False | Some should \<Rightarrow> should err attemptCount)"

definition errorHandler :: "'a UseSSEOptions \<Rightarrow> nat \<Rightarrow> number \<Rightarrow> 'a hook \<Rightarrow> 'a hook" where
  "errorHandler opts retryCount_seen delay s =
     (if \<not> isMounted s then s
      else
        (let currentError = SSEError ''EventSource failed'' (Some ''CONNECTION_ERROR'');
             s1 = s\<lparr>status := ERROR, error := Some currentError,
                    calls := calls s @
                      (if onError opts then [CalledOnError TransportEvent] else [])\<rparr>
         in if shouldRetry_call (retryConfig (retry opts)) currentError retryCount_seen
            then attemptReconnect opts delay retryCount_seen s1
            else s1))"

definition openHandler :: "'a UseSSEOptions \<Rightarrow> 'a hook \<Rightarrow> 'a hook" where
  "openHandler opts s =
     (if \<not> isMounted s then s
      else s\<lparr>status := OPEN, error := None, retryCount := 0,
             calls := calls s @ (if onOpen opts then [CalledOnOpen] else [])\<rparr>)"

text \<open>\<^verbatim>\<open>options.eventName || 'message'\<close>: the empty string is falsy too.\<close>

definition eventNameOrMessage :: "'a UseSSEOptions \<Rightarrow> string" where
  "eventNameOrMessage opts =
     (case eventName opts of
        None \<Rightarrow> ''message''
      | Some n \<Rightarrow> if n = [] then ''message'' else n)"

definition setupEventHandlers :: "'a UseSSEOptions \<Rightarrow> nat \<Rightarrow> 'a hook \<Rightarrow> 'a hook" where
  "setupEventHandlers opts sse s =
     addEventListener sse ''open'' OpenHandler
       (addEventListener sse ''error'' ErrorHandler
          (addEventListener sse (eventNameOrMessage opts) MessageHandler s))"

text \<open>The function that \<^verbatim>\<open>setupEventHandlers(sse)\<close> returns.\<close>

definition cleanup :: "'a UseSSEOptions \<Rightarrow> nat \<Rightarrow> 'a hook \<Rightarrow> 'a hook" where
  "cleanup opts sse s =
     es_close sse
       (removeEventListener sse ''open'' OpenHandler
          (removeEventListener sse ''error'' ErrorHandler
             (removeEventListener sse (eventNameOrMessage opts) MessageHandler s)))"

definition reconnect :: "string \<Rightarrow> 'a UseSSEOptions \<Rightarrow> 'a hook \<Rightarrow> 'a hook" where
  "reconnect url opts s =
     (let (sse, s1) = createEventSource url opts (s\<lparr>retryCount := 0\<rparr>)
      in setupEventHandlers opts sse s1)"

text \<open>
  The body of the effect, after which React keeps the function that the body returns,
  and that function, which React calls before it runs the effect again and when the
  component unmounts.
\<close>

definition mount :: "string \<Rightarrow> 'a UseSSEOptions \<Rightarrow> 'a hook \<Rightarrow> 'a hook" where
  "mount url opts s =
     (let (sse, s1) = createEventSource url opts (s\<lparr>isMounted := True\<rparr>)
      in (setupEventHandlers opts sse s1)\<lparr>effectSource := Some sse\<rparr>)"

definition unmount :: "'a UseSSEOptions \<Rightarrow> 'a hook \<Rightarrow> 'a hook" where
  "unmount opts s =
     (case effectSource s of
        None \<Rightarrow> s
      | Some sse \<Rightarrow>
          (clearRetryTimeout (cleanup opts sse (s\<lparr>isMounted := False\<rparr>)))
            \<lparr>effectSource := None\<rparr>)"

text \<open>
  A render of the mounted component: the dependencies of the effect have changed, so
  its cleanup runs and then its body.
\<close>

definition rerender :: "string \<Rightarrow> 'a UseSSEOptions \<Rightarrow> 'a hook \<Rightarrow> 'a hook" where
  "rerender url opts s =
     (case effectSource s of
        None \<Rightarrow> s
      | Some sse \<Rightarrow> mount url opts (unmount opts s))"

subsection \<open>Events\<close>

text \<open>
  The transport calls the listeners added for an event type, in the order they were
  added, and delivers nothing on an \<^verbatim>\<open>EventSource\<close> on which \<^verbatim>\<open>close()\<close> was called.
  The event carries its \<^verbatim>\<open>data\<close>; \<open>retryCount_seen\<close> is what the error handler
  reads from its closure, and \<open>delay\<close> what \<^verbatim>\<open>calculateRetryDelay\<close> returns to it.
\<close>

definition run_handler ::
  "(string \<Rightarrow> 'a option) \<Rightarrow> 'a UseSSEOptions \<Rightarrow> string \<Rightarrow> nat \<Rightarrow> number \<Rightarrow> handler
     \<Rightarrow> 'a hook \<Rightarrow> 'a hook" where
  "run_handler JSON_parse opts event_data retryCount_seen delay h s =
     (case h of
        MessageHandler \<Rightarrow> messageHandler JSON_parse opts event_data s
      | ErrorHandler \<Rightarrow> errorHandler opts retryCount_seen delay s
      | OpenHandler \<Rightarrow> openHandler opts s)"

definition listeners_for :: "nat \<Rightarrow> string \<Rightarrow> 'a hook \<Rightarrow> handler list" where
  "listeners_for i type s =
     (if i < length (sources s) \<and> \<not> es_closed (sources s ! i)
      then map snd (filter (\<lambda>l. fst l = type) (es_listeners (sources s ! i)))
      else [])"

definition dispatchEvent ::
  "(string \<Rightarrow> 'a option) \<Rightarrow> 'a UseSSEOptions \<Rightarrow> nat \<Rightarrow> string \<Rightarrow> string \<Rightarrow> nat \<Rightarrow> number
     \<Rightarrow> 'a hook \<Rightarrow> 'a hook" where
  "dispatchEvent JSON_parse opts i type event_data retryCount_seen delay s =
     foldl (\<lambda>s' h. run_handler JSON_parse opts event_data retryCount_seen delay h s') s
       (listeners_for i type s)"

text \<open>A pending timeout fires: it is pending no longer, and its callback runs.\<close>

definition fire :: "string \<Rightarrow> 'a UseSSEOptions \<Rightarrow> nat \<Rightarrow> 'a hook \<Rightarrow> 'a hook" where
  "fire url opts t s =
     (case find (\<lambda>x. timeout_id x = t) (timeouts s) of
        None \<Rightarrow> s
      | Some x \<Rightarrow> retryCallback url opts (timeout_attempt x) (clearTimeout t s))"

text \<open>
  What can happen once the effect of the first render has run: the transport emits an
  event on one of the \<^verbatim>\<open>EventSource\<close> objects, a timeout fires, the consumer calls
  \<^verbatim>\<open>close()\<close> or \<^verbatim>\<open>reconnect()\<close>, React renders the component again and re-runs the
  effect, or the component unmounts and the cleanup of the effect runs. Between a state
  change and the render that follows it, further events may be handled.
\<close>

datatype action =
  Emit nat string string nat number | Fire nat | Close | Reconnect | Render | Unmount

definition step ::
  "(string \<Rightarrow> 'a option) \<Rightarrow> string \<Rightarrow> 'a UseSSEOptions \<Rightarrow> action \<Rightarrow> 'a hook \<Rightarrow> 'a hook" where
  "step JSON_parse url opts a s =
     (case a of
        Emit i type event_data retryCount_seen delay \<Rightarrow>
          dispatchEvent JSON_parse opts i type event_data retryCount_seen delay s
      | Fire t \<Rightarrow> fire url opts t s
      | Close \<Rightarrow> close opts s
      | Reconnect \<Rightarrow> reconnect url opts s
      | Render \<Rightarrow> rerender url opts s
      | Unmount \<Rightarrow> unmount opts s)"

text \<open>
  The first render returns \<open>initial\<close>; its effect runs, and then the actions happen in
  turn.
\<close>

definition run ::
  "(string \<Rightarrow> 'a option) \<Rightarrow> string \<Rightarrow> 'a UseSSEOptions \<Rightarrow> action list \<Rightarrow> 'a hook" where
  "run JSON_parse url opts acts =
     foldl (\<lambda>s a. step JSON_parse url opts a s) (mount url opts initial) acts"

subsection \<open>Concrete inputs\<close>

text \<open>
  A consumer that registers all four callbacks and leaves every other option out; the
  same consumer with \<^verbatim>\<open>retry: { shouldRetry: () => false }\<close>, and with
  \<^verbatim>\<open>retry: { shouldRetry: (error, attemptCount) => attemptCount < 3 }\<close>. The data
  type \<^verbatim>\<open>T\<close> is \<open>string\<close>, and \<open>braces\<close> stands for \<^verbatim>\<open>JSON.parse\<close>: it
  decodes the payload \<^verbatim>\<open>{}\<close> and throws on every other one.
\<close>

definition test_url :: string where
  "test_url = ''http://test.com/events''"

definition observed :: "string UseSSEOptions" where
  "observed =
     \<lparr> onMessage = True, onError = True, onOpen = True, onClose = True,
       withCredentials = None, eventName = None, parseData = None, retry = None \<rparr>"

definition never_retry :: "string UseSSEOptions" where
  "never_retry =
     observed\<lparr>retry := Some \<lparr> p_maxAttempts = None, p_initialDelayMs = None,
       p_maxDelayMs = None, p_backoffFactor = None,
       p_shouldRetry = Some (Some (\<lambda>e n. False)), p_jitterFactor = None \<rparr>\<rparr>"

definition retry_below_three :: "string UseSSEOptions" where
  "retry_below_three =
     observed\<lparr>retry := Some \<lparr> p_maxAttempts = None, p_initialDelayMs = None,
       p_maxDelayMs = None, p_backoffFactor = None,
       p_shouldRetry = Some (Some (\<lambda>e n. n < 3)), p_jitterFactor = None \<rparr>\<rparr>"

definition braces :: "string \<Rightarrow> string option" where
  "braces d = (if d = ''{}'' then Some d else None)"

text \<open>
  Events on the first \<^verbatim>\<open>EventSource\<close>: an error whose handler reads a
  \<^verbatim>\<open>retryCount\<close> of 0 and gets the delay 1000 (what the default configuration gives
  for the first attempt when \<^verbatim>\<open>Math.random()\<close> returns 0.5), the open signal, a message
  that decodes and one that does not.
\<close>

abbreviation transport_error :: action where
  "transport_error \<equiv> Emit 0 ''error'' [] 0 (Finite 1000)"

abbreviation transport_open :: action where
  "transport_open \<equiv> Emit 0 ''open'' [] 0 (Finite 1000)"

abbreviation good_message :: action where
  "good_message \<equiv> Emit 0 ''message'' ''{}'' 0 (Finite 1000)"

abbreviation bad_message :: action where
  "bad_message \<equiv> Emit 0 ''message'' ''invalid-json'' 0 (Finite 1000)"

subsection \<open>Well-formed states\<close>

text \<open>
  The three listeners that \<open>setupEventHandlers\<close> adds, and the \<^verbatim>\<open>EventSource\<close>
  objects after \<^verbatim>\<open>close()\<close> was called on the current one.
\<close>

definition listeners_bound :: "'a UseSSEOptions \<Rightarrow> (string \<times> handler) list" where
  "listeners_bound opts =
     [(eventNameOrMessage opts, MessageHandler), (''error'', ErrorHandler),
      (''open'', OpenHandler)]"

definition closed_old :: "'a hook \<Rightarrow> EventSource list" where
  "closed_old s =
     (case eventSourceRef s of
        None \<Rightarrow> sources s
      | Some h \<Rightarrow>
          if h < length (sources s)
          then (sources s)[h := (sources s ! h)\<lparr>es_closed := True\<rparr>]
          else sources s)"

text \<open>
  What every run of the hook keeps true: an \<^verbatim>\<open>EventSource\<close> that is not closed is
  the current one; listeners are either absent or the three of \<open>setupEventHandlers\<close>;
  the current \<^verbatim>\<open>EventSource\<close> exists and, while the hook is mounted, is not closed;
  and with the status \<open>OPEN\<close> there is a current \<^verbatim>\<open>EventSource\<close> and the error is
  absent or a parse error.
\<close>

definition wf :: "'a UseSSEOptions \<Rightarrow> 'a hook \<Rightarrow> bool" where
  "wf opts s \<longleftrightarrow>
     (\<forall>i < length (sources s).
        (\<not> es_closed (sources s ! i) \<longrightarrow> eventSourceRef s = Some i)
        \<and> (es_listeners (sources s ! i) = []
           \<or> es_listeners (sources s ! i) = listeners_bound opts))
     \<and> (\<forall>h. eventSourceRef s = Some h \<longrightarrow>
           h < length (sources s) \<and> (isMounted s \<longrightarrow> \<not> es_closed (sources s ! h)))
     \<and> (status s = OPEN \<longrightarrow>
           eventSourceRef s \<noteq> None
           \<and> (error s = None
              \<or> error s = Some (SSEError ''Failed to parse event data'' (Some ''PARSE_ERROR''))))"

section \<open>Runs and well-formed states\<close>

lemma retryConfig_simps:
  "retryConfig None = DEFAULT_RETRY_CONFIG"
  "maxAttempts (retryConfig (Some p)) = spread 3 (p_maxAttempts p)"
  "initialDelayMs (retryConfig (Some p)) = spread (Finite 1000) (p_initialDelayMs p)"
  "maxDelayMs (retryConfig (Some p)) = spread (Finite 30000) (p_maxDelayMs p)"
  "backoffFactor (retryConfig (Some p)) = spread (Finite 2) (p_backoffFactor p)"
  "shouldRetry (retryConfig (Some p)) = spread (Some (\<lambda>e n. True)) (p_shouldRetry p)"
  "jitterFactor (retryConfig (Some p))
     = spread (Some (Finite (3602879701896397 / 2 ^ 55))) (p_jitterFactor p)"
  by (simp_all add: retryConfig_def DEFAULT_RETRY_CONFIG_def)

text \<open>
  A run is the mount followed by its actions, one step each. The lemmas of this section
  say what each function of the hook does to each cell, and that every step keeps a
  well-formed state well-formed.
\<close>

lemma run_Nil: "run J url opts [] = mount url opts initial"
  by (simp add: run_def)

lemma run_snoc:
  "run J url opts (acts @ [a]) = step J url opts a (run J url opts acts)"
  by (simp add: run_def)


lemma length_closed_old [simp]: "length (closed_old s) = length (sources s)"
  by (simp add: closed_old_def split: option.splits)

lemma createEventSource_fields:
  "fst (createEventSource url opts s) = length (sources s)"
  "sources (snd (createEventSource url opts s)) =
     closed_old s @ [\<lparr>es_url = url, es_withCredentials = withCredentials opts,
                       es_closed = False, es_listeners = []\<rparr>]"
  "eventSourceRef (snd (createEventSource url opts s)) = Some (length (sources s))"
  "status (snd (createEventSource url opts s)) = CONNECTING"
  "isMounted (snd (createEventSource url opts s)) = isMounted s"
  "error (snd (createEventSource url opts s)) = error s"
  "retryCount (snd (createEventSource url opts s)) = retryCount s"
  "timeouts (snd (createEventSource url opts s)) = timeouts s"
  "data (snd (createEventSource url opts s)) = data s"
  "retryTimeoutRef (snd (createEventSource url opts s)) = retryTimeoutRef s"
  by (simp_all add: createEventSource_def closed_old_def Let_def es_close_def update_source_def
        split: option.splits)


lemma closed_old_nth:
  assumes "i < length (sources s)"
  shows "es_listeners (closed_old s ! i) = es_listeners (sources s ! i)"
    and "\<not> es_closed (closed_old s ! i) \<Longrightarrow>
           \<not> es_closed (sources s ! i) \<and> eventSourceRef s \<noteq> Some i"
  using assms by (auto simp: closed_old_def nth_list_update split: option.splits if_splits)


lemma wf_open_source:
  "wf opts s \<Longrightarrow> i < length (sources s) \<Longrightarrow> \<not> es_closed (sources s ! i)
     \<Longrightarrow> eventSourceRef s = Some i"
  unfolding wf_def by blast

lemma wf_listeners:
  "wf opts s \<Longrightarrow> i < length (sources s)
     \<Longrightarrow> es_listeners (sources s ! i) = [] \<or> es_listeners (sources s ! i) = listeners_bound opts"
  unfolding wf_def by blast

lemma wf_ref:
  "wf opts s \<Longrightarrow> eventSourceRef s = Some h \<Longrightarrow> h < length (sources s)"
  "wf opts s \<Longrightarrow> eventSourceRef s = Some h \<Longrightarrow> isMounted s \<Longrightarrow> \<not> es_closed (sources s ! h)"
  unfolding wf_def by blast+

lemma wf_status:
  "wf opts s \<Longrightarrow> status s = OPEN \<Longrightarrow> eventSourceRef s \<noteq> None"
  "wf opts s \<Longrightarrow> status s = OPEN \<Longrightarrow>
     error s = None \<or> error s = Some (SSEError ''Failed to parse event data'' (Some ''PARSE_ERROR''))"
  unfolding wf_def by blast+

lemma wfI:
  assumes "\<And>i. i < length (sources s) \<Longrightarrow> \<not> es_closed (sources s ! i) \<Longrightarrow> eventSourceRef s = Some i"
    and "\<And>i. i < length (sources s) \<Longrightarrow>
           es_listeners (sources s ! i) = [] \<or> es_listeners (sources s ! i) = listeners_bound opts"
    and "\<And>h. eventSourceRef s = Some h \<Longrightarrow> h < length (sources s)"
    and "\<And>h. eventSourceRef s = Some h \<Longrightarrow> isMounted s \<Longrightarrow> \<not> es_closed (sources s ! h)"
    and "status s = OPEN \<Longrightarrow> eventSourceRef s \<noteq> None"
    and "status s = OPEN \<Longrightarrow>
           error s = None \<or> error s = Some (SSEError ''Failed to parse event data'' (Some ''PARSE_ERROR''))"
  shows "wf opts s"
  unfolding wf_def using assms by blast

lemma wf_unmounted:
  assumes "wf opts s"
  shows "wf opts (s\<lparr>isMounted := False\<rparr>)"
proof (rule wfI)
  let ?u = "s\<lparr>isMounted := False\<rparr>"
  fix i assume "i < length (sources ?u)" and "\<not> es_closed (sources ?u ! i)"
  then have "i < length (sources s)" and "\<not> es_closed (sources s ! i)" by simp_all
  from wf_open_source[OF assms this] show "eventSourceRef ?u = Some i" by simp
next
  let ?u = "s\<lparr>isMounted := False\<rparr>"
  fix i assume "i < length (sources ?u)"
  then have "i < length (sources s)" by simp
  from wf_listeners[OF assms this]
  show "es_listeners (sources ?u ! i) = [] \<or> es_listeners (sources ?u ! i) = listeners_bound opts"
    by simp
next
  let ?u = "s\<lparr>isMounted := False\<rparr>"
  fix h assume "eventSourceRef ?u = Some h"
  then have "eventSourceRef s = Some h" by simp
  from wf_ref(1)[OF assms this] show "h < length (sources ?u)" by simp
  assume "isMounted ?u"
  then show "\<not> es_closed (sources ?u ! h)" by simp
next
  assume "status (s\<lparr>isMounted := False\<rparr>) = OPEN"
  then have "status s = OPEN" by simp
  from wf_status(1)[OF assms this] show "eventSourceRef (s\<lparr>isMounted := False\<rparr>) \<noteq> None"
    by simp
next
  assume "status (s\<lparr>isMounted := False\<rparr>) = OPEN"
  then have "status s = OPEN" by simp
  from wf_status(2)[OF assms this]
  show "error (s\<lparr>isMounted := False\<rparr>) = None \<or>
        error (s\<lparr>isMounted := False\<rparr>)
          = Some (SSEError ''Failed to parse event data'' (Some ''PARSE_ERROR''))"
    by simp
qed

text \<open>
  \<open>createEventSource\<close> closes the current \<^verbatim>\<open>EventSource\<close> before it opens the next
  one, so it needs nothing of the current one: the body of the effect calls it when the
  cleanup has closed the \<^verbatim>\<open>EventSource\<close> of the effect.
\<close>

lemma wf_createEventSource_unmounted:
  assumes "wf opts (s\<lparr>isMounted := False\<rparr>)"
  shows "wf opts (snd (createEventSource url opts s))"
proof (rule wfI)
  let ?s' = "snd (createEventSource url opts s)"
  have current: "eventSourceRef s = Some i"
    if "i < length (sources s)" "\<not> es_closed (sources s ! i)" for i
    using wf_open_source[OF assms, of i] that by simp
  have listeners: "es_listeners (sources s ! i) = [] \<or> es_listeners (sources s ! i) = listeners_bound opts"
    if "i < length (sources s)" for i
    using wf_listeners[OF assms, of i] that by simp
  have old: "es_closed (closed_old s ! i)" if "i < length (sources s)" for i
    using current[OF that] closed_old_nth(2)[OF that] by blast
  fix i assume i: "i < length (sources ?s')"
  { assume "\<not> es_closed (sources ?s' ! i)"
    with old i have "i = length (sources s)"
      by (cases "i < length (sources s)") (simp_all add: createEventSource_fields nth_append)
    then show "eventSourceRef ?s' = Some i" by (simp add: createEventSource_fields) }
  show "es_listeners (sources ?s' ! i) = [] \<or> es_listeners (sources ?s' ! i) = listeners_bound opts"
  proof (cases "i < length (sources s)")
    case True
    then show ?thesis
      using listeners[OF True] closed_old_nth(1)[OF True]
      by (simp add: createEventSource_fields nth_append)
  next
    case False
    with i show ?thesis by (simp add: createEventSource_fields nth_append)
  qed
next
  fix h assume "eventSourceRef (snd (createEventSource url opts s)) = Some h"
  then have h: "h = length (sources s)" by (simp add: createEventSource_fields)
  then show "h < length (sources (snd (createEventSource url opts s)))"
    by (simp add: createEventSource_fields)
  from h show "\<not> es_closed (sources (snd (createEventSource url opts s)) ! h)"
    by (simp add: createEventSource_fields nth_append)
next
  assume "status (snd (createEventSource url opts s)) = OPEN"
  then show "eventSourceRef (snd (createEventSource url opts s)) \<noteq> None"
    by (simp add: createEventSource_fields)
next
  assume "status (snd (createEventSource url opts s)) = OPEN"
  then show "error (snd (createEventSource url opts s)) = None \<or>
    error (snd (createEventSource url opts s)) = Some (SSEError ''Failed to parse event data'' (Some ''PARSE_ERROR''))"
    by (simp add: createEventSource_fields)
qed

lemma wf_createEventSource:
  "wf opts s \<Longrightarrow> wf opts (snd (createEventSource url opts s))"
  by (rule wf_createEventSource_unmounted[OF wf_unmounted])

lemma wf_frame:
  assumes "sources s' = sources s" "eventSourceRef s' = eventSourceRef s"
    "isMounted s' = isMounted s" "status s' = status s" "error s' = error s"
  shows "wf opts s' = wf opts s"
  by (simp add: wf_def assms)

lemma setupEventHandlers_fields:
  "sources (setupEventHandlers opts sse s) =
     (if sse < length (sources s)
      then (sources s)[sse := (sources s ! sse)
             \<lparr>es_listeners := es_listeners (sources s ! sse) @ listeners_bound opts\<rparr>]
      else sources s)"
  "eventSourceRef (setupEventHandlers opts sse s) = eventSourceRef s"
  "isMounted (setupEventHandlers opts sse s) = isMounted s"
  "status (setupEventHandlers opts sse s) = status s"
  "error (setupEventHandlers opts sse s) = error s"
  "retryCount (setupEventHandlers opts sse s) = retryCount s"
  "timeouts (setupEventHandlers opts sse s) = timeouts s"
  "data (setupEventHandlers opts sse s) = data s"
  "retryTimeoutRef (setupEventHandlers opts sse s) = retryTimeoutRef s"
  by (simp_all add: setupEventHandlers_def addEventListener_def update_source_def
        listeners_bound_def)

lemma cleanup_fields:
  "sources (cleanup opts sse s) =
     (if sse < length (sources s)
      then (sources s)[sse := (sources s ! sse)
             \<lparr>es_listeners :=
                removeAll (''open'', OpenHandler)
                  (removeAll (''error'', ErrorHandler)
                     (removeAll (eventNameOrMessage opts, MessageHandler)
                        (es_listeners (sources s ! sse)))),
              es_closed := True\<rparr>]
      else sources s)"
  "eventSourceRef (cleanup opts sse s) = eventSourceRef s"
  "isMounted (cleanup opts sse s) = isMounted s"
  "status (cleanup opts sse s) = status s"
  "error (cleanup opts sse s) = error s"
  "retryCount (cleanup opts sse s) = retryCount s"
  "timeouts (cleanup opts sse s) = timeouts s"
  by (simp_all add: cleanup_def removeEventListener_def es_close_def update_source_def)

lemma clearRetryTimeout_fields:
  "sources (clearRetryTimeout s) = sources s"
  "eventSourceRef (clearRetryTimeout s) = eventSourceRef s"
  "isMounted (clearRetryTimeout s) = isMounted s"
  "status (clearRetryTimeout s) = status s"
  "error (clearRetryTimeout s) = error s"
  "retryCount (clearRetryTimeout s) = retryCount s"
  by (simp_all add: clearRetryTimeout_def clearTimeout_def split: option.splits)

lemma removeAll_listeners_bound:
  "removeAll (''open'', OpenHandler)
     (removeAll (''error'', ErrorHandler)
        (removeAll (eventNameOrMessage opts, MessageHandler) (listeners_bound opts))) = []"
  by (simp add: listeners_bound_def)




lemma setupEventHandlers_nth:
  "length (sources (setupEventHandlers opts sse s)) = length (sources s)"
  "i < length (sources s) \<Longrightarrow>
     es_closed (sources (setupEventHandlers opts sse s) ! i) = es_closed (sources s ! i)"
  "i < length (sources s) \<Longrightarrow>
     es_listeners (sources (setupEventHandlers opts sse s) ! i) =
       (if i = sse then es_listeners (sources s ! i) @ listeners_bound opts
        else es_listeners (sources s ! i))"
  by (simp_all add: setupEventHandlers_fields(1) nth_list_update)


lemma wf_setupEventHandlers:
  assumes "wf opts s" and "sse < length (sources s) \<Longrightarrow> es_listeners (sources s ! sse) = []"
  shows "wf opts (setupEventHandlers opts sse s)"
proof (rule wfI)
  let ?s' = "setupEventHandlers opts sse s"
  fix i assume "i < length (sources ?s')"
  then have i': "i < length (sources s)" by (simp add: setupEventHandlers_nth(1))
  { assume "\<not> es_closed (sources ?s' ! i)"
    then have "\<not> es_closed (sources s ! i)" by (simp add: setupEventHandlers_nth(2)[OF i'])
    from wf_open_source[OF assms(1) i' this]
    show "eventSourceRef ?s' = Some i" by (simp add: setupEventHandlers_fields(2)) }
  show "es_listeners (sources ?s' ! i) = [] \<or> es_listeners (sources ?s' ! i) = listeners_bound opts"
  proof (cases "i = sse")
    case True
    with assms(2) i' have "es_listeners (sources s ! i) = []" by simp
    then have "es_listeners (sources ?s' ! i) = listeners_bound opts"
      using True i' by (simp add: setupEventHandlers_nth(3))
    then show ?thesis ..
  next
    case False
    then have "es_listeners (sources ?s' ! i) = es_listeners (sources s ! i)"
      using i' by (simp add: setupEventHandlers_nth(3))
    with wf_listeners[OF assms(1) i'] show ?thesis by simp
  qed
next
  let ?s' = "setupEventHandlers opts sse s"
  fix h assume "eventSourceRef ?s' = Some h"
  then have h': "eventSourceRef s = Some h" by (simp add: setupEventHandlers_fields(2))
  from wf_ref(1)[OF assms(1) h'] have hl: "h < length (sources s)" .
  then show "h < length (sources ?s')" by (simp add: setupEventHandlers_nth(1))
  assume "isMounted ?s'"
  then have "isMounted s" by (simp add: setupEventHandlers_fields(3))
  from wf_ref(2)[OF assms(1) h' this]
  show "\<not> es_closed (sources ?s' ! h)" by (simp add: setupEventHandlers_nth(2)[OF hl])
next
  assume "status (setupEventHandlers opts sse s) = OPEN"
  then have "status s = OPEN" by (simp add: setupEventHandlers_fields(4))
  from wf_status(1)[OF assms(1) this]
  show "eventSourceRef (setupEventHandlers opts sse s) \<noteq> None"
    by (simp add: setupEventHandlers_fields(2))
next
  assume "status (setupEventHandlers opts sse s) = OPEN"
  then have "status s = OPEN" by (simp add: setupEventHandlers_fields(4))
  from wf_status(2)[OF assms(1) this]
  show "error (setupEventHandlers opts sse s) = None \<or>
    error (setupEventHandlers opts sse s) = Some (SSEError ''Failed to parse event data'' (Some ''PARSE_ERROR''))"
    by (simp add: setupEventHandlers_fields(5))
qed


lemma wf_connect:
  assumes "wf opts (s\<lparr>isMounted := False\<rparr>)"
  shows "wf opts (setupEventHandlers opts (fst (createEventSource url opts s))
                   (snd (createEventSource url opts s)))"
  by (rule wf_setupEventHandlers[OF wf_createEventSource_unmounted[OF assms]])
     (simp add: createEventSource_fields nth_append)

lemma wf_effectSource: "wf opts (s\<lparr>effectSource := e\<rparr>) = wf opts s"
  by (rule wf_frame) simp_all

lemma wf_mount:
  assumes "wf opts (s\<lparr>isMounted := False\<rparr>)"
  shows "wf opts (mount url opts s)"
proof -
  from assms have "wf opts (s\<lparr>isMounted := True, isMounted := False\<rparr>)" by simp
  from wf_connect[OF this, of url] show ?thesis
    unfolding mount_def Let_def case_prod_beta wf_effectSource .
qed

lemma wf_mount_initial: "wf opts (mount url opts initial)"
proof (rule wf_mount)
  show "wf opts ((initial :: 'a hook)\<lparr>isMounted := False\<rparr>)"
    by (simp add: wf_def initial_def)
qed

lemma wf_reconnect:
  assumes "wf opts s"
  shows "wf opts (reconnect url opts s)"
proof -
  have "wf opts (s\<lparr>retryCount := 0\<rparr>) = wf opts s" by (rule wf_frame) simp_all
  with assms have "wf opts (s\<lparr>retryCount := 0\<rparr>)" by simp
  from wf_connect[OF wf_unmounted[OF this], of url] show ?thesis
    unfolding reconnect_def Let_def case_prod_beta .
qed

lemma cleanup_nth:
  "length (sources (cleanup opts sse s)) = length (sources s)"
  "i < length (sources s) \<Longrightarrow>
     es_closed (sources (cleanup opts sse s) ! i) = (i = sse \<or> es_closed (sources s ! i))"
  "i < length (sources s) \<Longrightarrow>
     es_listeners (sources (cleanup opts sse s) ! i) =
       (if i = sse
        then removeAll (''open'', OpenHandler)
               (removeAll (''error'', ErrorHandler)
                  (removeAll (eventNameOrMessage opts, MessageHandler)
                     (es_listeners (sources s ! i))))
        else es_listeners (sources s ! i))"
  by (simp_all add: cleanup_fields(1) nth_list_update)


lemma wf_cleanup:
  assumes "wf opts s"
  shows "wf opts (clearRetryTimeout (cleanup opts sse (s\<lparr>isMounted := False\<rparr>)))"
proof -
  let ?u = "s\<lparr>isMounted := False\<rparr>"
  let ?c = "cleanup opts sse ?u"
  have src: "sources ?u = sources s" by simp
  have "wf opts ?c"
  proof (rule wfI)
    fix i assume "i < length (sources ?c)"
    then have i': "i < length (sources s)" by (simp add: cleanup_nth(1))
    then have iu: "i < length (sources ?u)" by simp
    { assume "\<not> es_closed (sources ?c ! i)"
      then have "\<not> es_closed (sources s ! i)" using cleanup_nth(2)[OF iu, of opts sse] by simp
      from wf_open_source[OF assms i' this]
      show "eventSourceRef ?c = Some i" by (simp add: cleanup_fields(2)) }
    show "es_listeners (sources ?c ! i) = [] \<or> es_listeners (sources ?c ! i) = listeners_bound opts"
    proof (cases "i = sse")
      case True
      from wf_listeners[OF assms i'] have "es_listeners (sources ?c ! i) = []"
      proof
        assume "es_listeners (sources s ! i) = []"
        then show ?thesis using cleanup_nth(3)[OF iu, of opts sse] True by simp
      next
        assume "es_listeners (sources s ! i) = listeners_bound opts"
        then show ?thesis using cleanup_nth(3)[OF iu, of opts sse] True
          by (simp add: removeAll_listeners_bound)
      qed
      then show ?thesis ..
    next
      case False
      then have "es_listeners (sources ?c ! i) = es_listeners (sources s ! i)"
        using cleanup_nth(3)[OF iu, of opts sse] by simp
      with wf_listeners[OF assms i'] show ?thesis by simp
    qed
  next
    fix h assume "eventSourceRef ?c = Some h"
    then have h': "eventSourceRef s = Some h" by (simp add: cleanup_fields(2))
    from wf_ref(1)[OF assms h'] show "h < length (sources ?c)" by (simp add: cleanup_nth(1))
    assume "isMounted ?c"
    then show "\<not> es_closed (sources ?c ! h)" by (simp add: cleanup_fields(3))
  next
    assume "status ?c = OPEN"
    then have "status s = OPEN" by (simp add: cleanup_fields(4))
    from wf_status(1)[OF assms this] show "eventSourceRef ?c \<noteq> None"
      by (simp add: cleanup_fields(2))
  next
    assume "status ?c = OPEN"
    then have "status s = OPEN" by (simp add: cleanup_fields(4))
    from wf_status(2)[OF assms this] show "error ?c = None \<or>
      error ?c = Some (SSEError ''Failed to parse event data'' (Some ''PARSE_ERROR''))"
      by (simp add: cleanup_fields(5))
  qed
  moreover have "wf opts (clearRetryTimeout ?c) = wf opts ?c"
    by (rule wf_frame) (simp_all only: clearRetryTimeout_fields)
  ultimately show ?thesis by simp
qed

lemma wf_unmount:
  assumes "wf opts s"
  shows "wf opts (unmount opts s)"
proof (cases "effectSource s")
  case None
  with assms show ?thesis by (simp add: unmount_def)
next
  case (Some sse)
  from wf_cleanup[OF assms, of sse] show ?thesis
    by (simp add: unmount_def Some wf_effectSource)
qed

lemma wf_rerender:
  assumes "wf opts s"
  shows "wf opts (rerender url opts s)"
proof (cases "effectSource s")
  case None
  with assms show ?thesis by (simp add: rerender_def)
next
  case (Some sse)
  from wf_mount[OF wf_unmounted[OF wf_unmount[OF assms]], of url] show ?thesis
    by (simp add: rerender_def Some)
qed

lemma close_fields:
  "sources (close opts s) = closed_old s"
  "eventSourceRef (close opts s) = None"
  "isMounted (close opts s) = isMounted s"
  "status (close opts s) = (if eventSourceRef s = None then status s else CLOSED)"
  "error (close opts s) = error s"
  "retryCount (close opts s) = retryCount s"
  "data (close opts s) = data s"
  by (simp_all add: close_def clearRetryTimeout_fields closed_old_def es_close_def
        update_source_def clearRetryTimeout_def clearTimeout_def split: option.splits)

lemma wf_close:
  assumes "wf opts s"
  shows "wf opts (close opts s)"
proof (rule wfI)
  fix i assume "i < length (sources (close opts s))"
  then have i': "i < length (sources s)" by (simp add: close_fields(1))
  { assume "\<not> es_closed (sources (close opts s) ! i)"
    then have c: "\<not> es_closed (closed_old s ! i)" by (simp add: close_fields(1))
    from closed_old_nth(2)[OF i' c] wf_open_source[OF assms i']
    show "eventSourceRef (close opts s) = Some i" by blast }
  from wf_listeners[OF assms i'] closed_old_nth(1)[OF i']
  show "es_listeners (sources (close opts s) ! i) = [] \<or>
        es_listeners (sources (close opts s) ! i) = listeners_bound opts"
    by (simp add: close_fields(1))
next
  fix h assume h: "eventSourceRef (close opts s) = Some h"
  then show "h < length (sources (close opts s))" by (simp add: close_fields(2))
  from h show "\<not> es_closed (sources (close opts s) ! h)" by (simp add: close_fields(2))
next
  assume o: "status (close opts s) = OPEN"
  then have "eventSourceRef s = None \<and> status s = OPEN"
    by (simp add: close_fields(4) split: if_splits)
  with wf_status(1)[OF assms] have False by simp
  then show "eventSourceRef (close opts s) \<noteq> None" ..
next
  assume o: "status (close opts s) = OPEN"
  then have "eventSourceRef s = None \<and> status s = OPEN"
    by (simp add: close_fields(4) split: if_splits)
  with wf_status(1)[OF assms] have False by simp
  then show "error (close opts s) = None \<or>
      error (close opts s) = Some (SSEError ''Failed to parse event data'' (Some ''PARSE_ERROR''))" ..
qed


lemma wf_same_connection:
  assumes "wf opts s" "sources s' = sources s" "eventSourceRef s' = eventSourceRef s"
    "isMounted s' = isMounted s"
    "status s' = OPEN \<Longrightarrow> eventSourceRef s \<noteq> None \<and>
       (error s' = None \<or> error s' = Some (SSEError ''Failed to parse event data'' (Some ''PARSE_ERROR'')))"
  shows "wf opts s'"
proof (rule wfI)
  fix i assume "i < length (sources s')" and "\<not> es_closed (sources s' ! i)"
  then have "i < length (sources s)" "\<not> es_closed (sources s ! i)"
    by (simp_all add: assms(2))
  from wf_open_source[OF assms(1) this] show "eventSourceRef s' = Some i"
    by (simp add: assms(3))
next
  fix i assume "i < length (sources s')"
  then have "i < length (sources s)" by (simp add: assms(2))
  from wf_listeners[OF assms(1) this]
  show "es_listeners (sources s' ! i) = [] \<or> es_listeners (sources s' ! i) = listeners_bound opts"
    by (simp add: assms(2))
next
  fix h assume "eventSourceRef s' = Some h"
  then have h: "eventSourceRef s = Some h" by (simp add: assms(3))
  from wf_ref(1)[OF assms(1) h] show "h < length (sources s')" by (simp add: assms(2))
  assume "isMounted s'"
  then have "isMounted s" by (simp add: assms(4))
  from wf_ref(2)[OF assms(1) h this] show "\<not> es_closed (sources s' ! h)"
    by (simp add: assms(2))
next
  assume "status s' = OPEN"
  from assms(5)[OF this] show "eventSourceRef s' \<noteq> None" by (simp add: assms(3))
next
  assume "status s' = OPEN"
  from assms(5)[OF this]
  show "error s' = None \<or> error s' = Some (SSEError ''Failed to parse event data'' (Some ''PARSE_ERROR''))"
    by simp
qed

lemma attemptReconnect_fields:
  "sources (attemptReconnect opts delay n s) = sources s"
  "eventSourceRef (attemptReconnect opts delay n s) = eventSourceRef s"
  "isMounted (attemptReconnect opts delay n s) = isMounted s"
  "retryCount (attemptReconnect opts delay n s) = retryCount s"
  "data (attemptReconnect opts delay n s) = data s"
  "calls (attemptReconnect opts delay n s) = calls s"
  "status s = ERROR \<Longrightarrow> status (attemptReconnect opts delay n s) = ERROR"
  by (simp_all add: attemptReconnect_def setTimeout_def Let_def)

lemma messageHandler_fields:
  "sources (messageHandler J opts d s) = sources s"
  "eventSourceRef (messageHandler J opts d s) = eventSourceRef s"
  "isMounted (messageHandler J opts d s) = isMounted s"
  "status (messageHandler J opts d s) = status s"
  "retryCount (messageHandler J opts d s) = retryCount s"
  "timeouts (messageHandler J opts d s) = timeouts s"
  "error (messageHandler J opts d s) = error s \<or>
   error (messageHandler J opts d s) = Some (SSEError ''Failed to parse event data'' (Some ''PARSE_ERROR''))"
  by (simp_all add: messageHandler_def Let_def split: option.splits)

lemma errorHandler_fields:
  "sources (errorHandler opts n delay s) = sources s"
  "eventSourceRef (errorHandler opts n delay s) = eventSourceRef s"
  "isMounted (errorHandler opts n delay s) = isMounted s"
  "retryCount (errorHandler opts n delay s) = retryCount s"
  "data (errorHandler opts n delay s) = data s"
  "isMounted s \<Longrightarrow> status (errorHandler opts n delay s) = ERROR"
  "\<not> isMounted s \<Longrightarrow> errorHandler opts n delay s = s"
  by (simp_all add: errorHandler_def Let_def attemptReconnect_fields)

lemma openHandler_fields:
  "sources (openHandler opts s) = sources s"
  "eventSourceRef (openHandler opts s) = eventSourceRef s"
  "isMounted (openHandler opts s) = isMounted s"
  "data (openHandler opts s) = data s"
  "timeouts (openHandler opts s) = timeouts s"
  "isMounted s \<Longrightarrow> status (openHandler opts s) = OPEN"
  "isMounted s \<Longrightarrow> error (openHandler opts s) = None"
  "isMounted s \<Longrightarrow> retryCount (openHandler opts s) = 0"
  "\<not> isMounted s \<Longrightarrow> openHandler opts s = s"
  by (simp_all add: openHandler_def)

lemma run_handler_fields:
  "sources (run_handler J opts d n delay h s) = sources s"
  "eventSourceRef (run_handler J opts d n delay h s) = eventSourceRef s"
  "isMounted (run_handler J opts d n delay h s) = isMounted s"
  by (cases h; simp add: run_handler_def messageHandler_fields errorHandler_fields
        openHandler_fields)+

lemma wf_run_handler:
  assumes "wf opts s" and "eventSourceRef s \<noteq> None"
  shows "wf opts (run_handler J opts d n delay h s)"
proof (rule wf_same_connection[OF assms(1)])
  show "sources (run_handler J opts d n delay h s) = sources s"
    "eventSourceRef (run_handler J opts d n delay h s) = eventSourceRef s"
    "isMounted (run_handler J opts d n delay h s) = isMounted s"
    by (rule run_handler_fields)+
  assume o: "status (run_handler J opts d n delay h s) = OPEN"
  have "error (run_handler J opts d n delay h s) = None \<or>
        error (run_handler J opts d n delay h s)
          = Some (SSEError ''Failed to parse event data'' (Some ''PARSE_ERROR''))"
  proof (cases h)
    case MessageHandler
    with o have "status s = OPEN" by (simp add: run_handler_def messageHandler_fields)
    from wf_status(2)[OF assms(1) this] messageHandler_fields(7)[of J opts d s]
    show ?thesis unfolding MessageHandler run_handler_def by auto
  next
    case ErrorHandler
    show ?thesis
    proof (cases "isMounted s")
      case True
      with o ErrorHandler show ?thesis by (simp add: run_handler_def errorHandler_fields)
    next
      case False
      with o ErrorHandler have "status s = OPEN" by (simp add: run_handler_def errorHandler_fields)
      from wf_status(2)[OF assms(1) this] False ErrorHandler
      show ?thesis by (simp add: run_handler_def errorHandler_fields)
    qed
  next
    case OpenHandler
    show ?thesis
    proof (cases "isMounted s")
      case True
      with OpenHandler show ?thesis by (simp add: run_handler_def openHandler_fields)
    next
      case False
      with o OpenHandler have "status s = OPEN" by (simp add: run_handler_def openHandler_fields)
      from wf_status(2)[OF assms(1) this] False OpenHandler
      show ?thesis by (simp add: run_handler_def openHandler_fields)
    qed
  qed
  with assms(2) show "eventSourceRef s \<noteq> None \<and>
       (error (run_handler J opts d n delay h s) = None \<or>
        error (run_handler J opts d n delay h s)
          = Some (SSEError ''Failed to parse event data'' (Some ''PARSE_ERROR'')))"
    by simp
qed

lemma wf_handlers:
  "wf opts s \<Longrightarrow> eventSourceRef s \<noteq> None \<Longrightarrow>
     wf opts (foldl (\<lambda>s' h. run_handler J opts d n delay h s') s hs)"
proof (induction hs arbitrary: s)
  case Nil
  then show ?case by simp
next
  case (Cons h hs)
  have "eventSourceRef (run_handler J opts d n delay h s) \<noteq> None"
    using Cons.prems(2) by (simp add: run_handler_fields)
  from Cons.IH[OF wf_run_handler[OF Cons.prems] this] show ?case by simp
qed

lemma wf_dispatchEvent:
  assumes "wf opts s"
  shows "wf opts (dispatchEvent J opts i type d n delay s)"
proof (cases "i < length (sources s) \<and> \<not> es_closed (sources s ! i)")
  case True
  then have "eventSourceRef s = Some i" using wf_open_source[OF assms] by blast
  then have "eventSourceRef s \<noteq> None" by simp
  from wf_handlers[OF assms this] show ?thesis unfolding dispatchEvent_def .
next
  case False
  then have "listeners_for i type s = []" by (auto simp: listeners_for_def)
  with assms show ?thesis by (simp add: dispatchEvent_def)
qed


lemma wf_fire:
  assumes "wf opts s"
  shows "wf opts (fire url opts t s)"
proof (cases "find (\<lambda>x. timeout_id x = t) (timeouts s)")
  case None
  with assms show ?thesis by (simp add: fire_def)
next
  case (Some x)
  let ?c = "clearTimeout t s"
  have c: "wf opts ?c"
    by (rule wf_same_connection[OF assms]) (simp_all add: clearTimeout_def wf_status[OF assms])
  show ?thesis
  proof (cases "isMounted s")
    case False
    then have "fire url opts t s = ?c"
      by (simp add: fire_def Some retryCallback_def clearTimeout_def)
    with c show ?thesis by simp
  next
    case True
    let ?r = "?c\<lparr>retryCount := timeout_attempt x + 1\<rparr>"
    have "wf opts ?r"
      by (rule wf_same_connection[OF c]) (simp_all add: wf_status[OF c])
    from wf_createEventSource[OF this, of url]
    show ?thesis using True by (simp add: fire_def Some retryCallback_def clearTimeout_def)
  qed
qed

lemma wf_step:
  "wf opts s \<Longrightarrow> wf opts (step J url opts a s)"
  by (cases a)
     (simp_all add: step_def wf_dispatchEvent wf_fire wf_close wf_reconnect wf_rerender
        wf_unmount)

lemma wf_run: "wf opts (run J url opts acts)"
proof (induction acts rule: rev_induct)
  case Nil
  show ?case by (simp add: run_Nil wf_mount_initial)
next
  case (snoc a acts)
  then show ?case by (simp add: run_snoc wf_step)
qed

lemma handlers_bound:
  "map snd (filter (\<lambda>l. fst l = type) (listeners_bound opts)) =
     (if eventNameOrMessage opts = type then [MessageHandler] else [])
     @ (if type = ''error'' then [ErrorHandler] else [])
     @ (if type = ''open'' then [OpenHandler] else [])"
  by (auto simp: listeners_bound_def)

lemma listeners_for_cases:
  assumes "wf opts s"
  shows "listeners_for i type s = [] \<or>
         listeners_for i type s =
           (if eventNameOrMessage opts = type then [MessageHandler] else [])
           @ (if type = ''error'' then [ErrorHandler] else [])
           @ (if type = ''open'' then [OpenHandler] else [])"
proof (cases "i < length (sources s) \<and> \<not> es_closed (sources s ! i)")
  case True
  then have i: "i < length (sources s)" by simp
  from wf_listeners[OF assms i] show ?thesis
  proof
    assume "es_listeners (sources s ! i) = []"
    then show ?thesis by (simp add: listeners_for_def)
  next
    assume "es_listeners (sources s ! i) = listeners_bound opts"
    then have "listeners_for i type s = map snd (filter (\<lambda>l. fst l = type) (listeners_bound opts))"
      using True by (simp add: listeners_for_def)
    then have "listeners_for i type s =
           (if eventNameOrMessage opts = type then [MessageHandler] else [])
           @ (if type = ''error'' then [ErrorHandler] else [])
           @ (if type = ''open'' then [OpenHandler] else [])"
      unfolding handlers_bound .
    then show ?thesis ..
  qed
next
  case False
  then show ?thesis by (auto simp: listeners_for_def)
qed

lemma run_handler_unmounted:
  "\<not> isMounted s \<Longrightarrow> run_handler J opts d n delay h s = s"
  by (cases h) (simp_all add: run_handler_def messageHandler_def errorHandler_def openHandler_def)

lemma run_handler_status:
  "h \<noteq> OpenHandler \<Longrightarrow> status (run_handler J opts d n delay h s) = OPEN \<Longrightarrow> status s = OPEN"
  by (cases h; cases "isMounted s")
     (simp_all add: run_handler_def messageHandler_fields errorHandler_fields)

lemma run_handler_not_open:
  "h \<noteq> OpenHandler \<Longrightarrow> status s \<noteq> OPEN \<Longrightarrow> status (run_handler J opts d n delay h s) \<noteq> OPEN"
  using run_handler_status by blast

lemma status_becomes_open_dispatch:
  assumes "wf opts s" and "status (dispatchEvent J opts i type d n delay s) = OPEN"
    and "status s \<noteq> OPEN"
  shows "type = ''open'' \<and> error (dispatchEvent J opts i type d n delay s) = None
           \<and> retryCount (dispatchEvent J opts i type d n delay s) = 0"
proof -
  let ?f = "\<lambda>s' h. run_handler J opts d n delay h s'"
  from listeners_for_cases[OF assms(1), of i type]
  consider (none) "listeners_for i type s = []"
    | (m) "listeners_for i type s = [MessageHandler]"
    | (e) "listeners_for i type s = [ErrorHandler]"
    | (me) "listeners_for i type s = [MessageHandler, ErrorHandler]"
    | (o) "type = ''open''" "listeners_for i type s = [OpenHandler]"
    | (mo) "type = ''open''" "listeners_for i type s = [MessageHandler, OpenHandler]"
    by (auto split: if_splits)
  then show ?thesis
  proof cases
    case none
    with assms show ?thesis by (simp add: dispatchEvent_def)
  next
    case m
    with assms(2) have "status (run_handler J opts d n delay MessageHandler s) = OPEN"
      by (simp add: dispatchEvent_def)
    with run_handler_not_open[OF _ assms(3), of MessageHandler J opts d n delay] show ?thesis by simp
  next
    case e
    with assms(2) have "status (run_handler J opts d n delay ErrorHandler s) = OPEN"
      by (simp add: dispatchEvent_def)
    with run_handler_not_open[OF _ assms(3), of ErrorHandler J opts d n delay] show ?thesis by simp
  next
    case me
    with assms(2) have "status (run_handler J opts d n delay ErrorHandler
        (run_handler J opts d n delay MessageHandler s)) = OPEN"
      by (simp add: dispatchEvent_def)
    with run_handler_not_open[OF _ run_handler_not_open[OF _ assms(3), of MessageHandler J opts d n delay],
           of ErrorHandler J opts d n delay]
    show ?thesis by simp
  next
    case o
    have mounted: "isMounted s"
    proof (rule ccontr)
      assume "\<not> isMounted s"
      then have "dispatchEvent J opts i type d n delay s = s"
        using o(2) by (simp add: dispatchEvent_def run_handler_unmounted)
      with assms show False by simp
    qed
    then show ?thesis using o(1) o(2)
      by (simp add: dispatchEvent_def run_handler_def openHandler_fields)
  next
    case mo
    have mounted: "isMounted s"
    proof (rule ccontr)
      assume "\<not> isMounted s"
      then have "dispatchEvent J opts i type d n delay s = s"
        using mo(2) by (simp add: dispatchEvent_def run_handler_unmounted)
      with assms show False by simp
    qed
    then have "isMounted (messageHandler J opts d s)" by (simp add: messageHandler_fields)
    then show ?thesis using mo(1) mo(2)
      by (simp add: dispatchEvent_def run_handler_def openHandler_fields)
  qed
qed


lemma reconnect_fields:
  "status (reconnect url opts s) = CONNECTING"
  "retryCount (reconnect url opts s) = 0"
  "timeouts (reconnect url opts s) = timeouts s"
  "retryTimeoutRef (reconnect url opts s) = retryTimeoutRef s"
  "eventSourceRef (reconnect url opts s) = Some (length (sources s))"
  "error (reconnect url opts s) = error s"
  by (simp_all add: reconnect_def case_prod_beta setupEventHandlers_fields
        createEventSource_fields createEventSource_def es_close_def update_source_def
        setupEventHandlers_def addEventListener_def Let_def split: option.splits)

lemma fire_status: "status (fire url opts t s) = OPEN \<Longrightarrow> status s = OPEN"
  by (cases "find (\<lambda>x. timeout_id x = t) (timeouts s)"; cases "isMounted s")
     (simp_all add: fire_def retryCallback_def clearTimeout_def createEventSource_fields)

lemma unmount_status: "status (unmount opts s) = status s"
  by (cases "effectSource s")
     (simp_all add: unmount_def clearRetryTimeout_fields cleanup_fields)

lemma mount_status: "status (mount url opts s) = CONNECTING"
  by (simp add: mount_def case_prod_beta setupEventHandlers_fields createEventSource_fields)

lemma rerender_status: "status (rerender url opts s) = OPEN \<Longrightarrow> status s = OPEN"
  by (cases "effectSource s") (simp_all add: rerender_def mount_status)

lemma status_becomes_open:
  assumes "wf opts s" and "status (step J url opts a s) = OPEN" and "status s \<noteq> OPEN"
  shows "(\<exists>i d n delay. a = Emit i ''open'' d n delay)
         \<and> error (step J url opts a s) = None \<and> retryCount (step J url opts a s) = 0"
proof (cases a)
  case (Emit i type d n delay)
  with assms(2) have "status (dispatchEvent J opts i type d n delay s) = OPEN"
    by (simp add: step_def)
  from status_becomes_open_dispatch[OF assms(1) this assms(3)]
  have "type = ''open''" and "error (dispatchEvent J opts i type d n delay s) = None"
    and "retryCount (dispatchEvent J opts i type d n delay s) = 0"
    by blast+
  then show ?thesis unfolding Emit by (auto simp: step_def)
next
  case (Fire t)
  with assms(2) fire_status[of url opts t s] assms(3) show ?thesis by (simp add: step_def)
next
  case Close
  with assms(2) assms(3) show ?thesis by (simp add: step_def close_fields split: if_splits)
next
  case Reconnect
  with assms(2) show ?thesis by (simp add: step_def reconnect_fields)
next
  case Render
  with assms(2) assms(3) rerender_status[of url opts s] show ?thesis by (simp add: step_def)
next
  case Unmount
  with assms(2) assms(3) show ?thesis by (simp add: step_def unmount_status)
qed

lemma mount_fields:
  "status (mount url opts initial) = CONNECTING"
  "isMounted (mount url opts initial)"
  "sources (mount url opts initial) =
     [\<lparr>es_url = url, es_withCredentials = withCredentials opts, es_closed = False,
       es_listeners = listeners_bound opts\<rparr>]"
  "eventSourceRef (mount url opts initial) = Some 0"
  "error (mount url opts initial) = None"
  "retryCount (mount url opts initial) = 0"
  "data (mount url opts initial) = None"
  "timeouts (mount url opts initial) = []"
  "effectSource (mount url opts initial) = Some 0"
  by (simp_all add: mount_def case_prod_beta setupEventHandlers_fields createEventSource_fields
        closed_old_def initial_def)

lemma open_after_mount:
  "status (run J url opts [Emit 0 ''open'' d n delay]) = OPEN"
  "error (run J url opts [Emit 0 ''open'' d n delay]) = None"
  "retryCount (run J url opts [Emit 0 ''open'' d n delay]) = 0"
proof -
  let ?m = "mount url opts initial"
  have run: "run J url opts [Emit 0 ''open'' d n delay] = dispatchEvent J opts 0 ''open'' d n delay ?m"
    using run_snoc[of J url opts "[]"] by (simp add: run_Nil step_def)
  have l: "listeners_for 0 ''open'' ?m =
      (if eventNameOrMessage opts = ''open'' then [MessageHandler] else []) @ [OpenHandler]"
    by (simp add: listeners_for_def mount_fields handlers_bound)
  have m: "isMounted (messageHandler J opts d ?m)" by (simp add: messageHandler_fields mount_fields)
  show "status (run J url opts [Emit 0 ''open'' d n delay]) = OPEN"
    "error (run J url opts [Emit 0 ''open'' d n delay]) = None"
    "retryCount (run J url opts [Emit 0 ''open'' d n delay]) = 0"
    using m by (simp_all add: run dispatchEvent_def l run_handler_def openHandler_fields mount_fields)
qed

section \<open>Sample runs\<close>

text \<open>
  The states of some runs of the hook for the consumer \<open>observed\<close>, computed step by
  step from the definitions.
\<close>

lemmas eval_defs =
  step_def dispatchEvent_def listeners_for_def run_handler_def messageHandler_def
  errorHandler_def openHandler_def attemptReconnect_def shouldRetry_call_def setTimeout_def
  clearTimeout_def clearRetryTimeout_def fire_def retryCallback_def close_def reconnect_def
  createEventSource_def setupEventHandlers_def addEventListener_def es_close_def
  update_source_def eventNameOrMessage_def cleanup_def removeEventListener_def mount_def
  unmount_def rerender_def retryConfig_simps DEFAULT_RETRY_CONFIG_def observed_def braces_def
  test_url_def Let_def

lemma run_steps:
  "run J url opts [a] = step J url opts a (run J url opts [])"
  "run J url opts [a, b] = step J url opts b (run J url opts [a])"
  "run J url opts [a, b, c] = step J url opts c (run J url opts [a, b])"
  "run J url opts [a, b, c, d] = step J url opts d (run J url opts [a, b, c])"
  using run_snoc [of J url opts "[]" a] run_snoc [of J url opts "[a]" b]
    run_snoc [of J url opts "[a, b]" c] run_snoc [of J url opts "[a, b, c]" d]
  by simp_all

lemma trace_mounted:
  "run braces test_url observed [] =
     \<lparr>status = CONNECTING,
       data = None,
       error = None,
       retryCount = 0,
       eventSourceRef = Some 0,
       retryTimeoutRef = None,
       isMounted = True,
       sources =
         [\<lparr>es_url = ''http://test.com/events'', es_withCredentials = None,
            es_closed = False, es_listeners =
              [(''message'', MessageHandler), (''error'', ErrorHandler), (''open'', OpenHandler)]\<rparr>],
       timeouts = [],
       timeoutsSet = 0,
       calls = [],
       effectSource = Some 0\<rparr>"
  by (simp add: run_Nil initial_def eval_defs)

lemma trace_error:
  "run braces test_url observed [transport_error] =
     \<lparr>status = ERROR,
       data = None,
       error = Some (SSEError ''EventSource failed'' (Some ''CONNECTION_ERROR'')),
       retryCount = 0,
       eventSourceRef = Some 0,
       retryTimeoutRef = Some 1,
       isMounted = True,
       sources =
         [\<lparr>es_url = ''http://test.com/events'', es_withCredentials = None,
            es_closed = False, es_listeners =
              [(''message'', MessageHandler), (''error'', ErrorHandler), (''open'', OpenHandler)]\<rparr>],
       timeouts = [Timeout 1 0 (Finite 1000)],
       timeoutsSet = 1,
       calls = [CalledOnError TransportEvent],
       effectSource = Some 0\<rparr>"
  unfolding run_steps(1) trace_mounted
  by (simp add: eval_defs)

lemma trace_error_retry:
  "run braces test_url observed [transport_error, Fire 1] =
     \<lparr>status = CONNECTING,
       data = None,
       error = Some (SSEError ''EventSource failed'' (Some ''CONNECTION_ERROR'')),
       retryCount = 1,
       eventSourceRef = Some 1,
       retryTimeoutRef = Some 1,
       isMounted = True,
       sources =
         [\<lparr>es_url = ''http://test.com/events'', es_withCredentials = None,
            es_closed = True, es_listeners =
              [(''message'', MessageHandler), (''error'', ErrorHandler), (''open'', OpenHandler)]\<rparr>,
          \<lparr>es_url = ''http://test.com/events'', es_withCredentials = None,
            es_closed = False, es_listeners = []\<rparr>],
       timeouts = [],
       timeoutsSet = 1,
       calls = [CalledOnError TransportEvent],
       effectSource = Some 0\<rparr>"
  unfolding run_steps(2) trace_error
  by (simp add: eval_defs)

lemma trace_error_reconnect:
  "run braces test_url observed [transport_error, Reconnect] =
     \<lparr>status = CONNECTING,
       data = None,
       error = Some (SSEError ''EventSource failed'' (Some ''CONNECTION_ERROR'')),
       retryCount = 0,
       eventSourceRef = Some 1,
       retryTimeoutRef = Some 1,
       isMounted = True,
       sources =
         [\<lparr>es_url = ''http://test.com/events'', es_withCredentials = None,
            es_closed = True, es_listeners =
              [(''message'', MessageHandler), (''error'', ErrorHandler), (''open'', OpenHandler)]\<rparr>,
          \<lparr>es_url = ''http://test.com/events'', es_withCredentials = None,
            es_closed = False, es_listeners =
              [(''message'', MessageHandler), (''error'', ErrorHandler), (''open'', OpenHandler)]\<rparr>],
       timeouts = [Timeout 1 0 (Finite 1000)],
       timeoutsSet = 1,
       calls = [CalledOnError TransportEvent],
       effectSource = Some 0\<rparr>"
  unfolding run_steps(2) trace_error
  by (simp add: eval_defs)

lemma trace_error_reconnect_retry:
  "run braces test_url observed [transport_error, Reconnect, Fire 1] =
     \<lparr>status = CONNECTING,
       data = None,
       error = Some (SSEError ''EventSource failed'' (Some ''CONNECTION_ERROR'')),
       retryCount = 1,
       eventSourceRef = Some 2,
       retryTimeoutRef = Some 1,
       isMounted = True,
       sources =
         [\<lparr>es_url = ''http://test.com/events'', es_withCredentials = None,
            es_closed = True, es_listeners =
              [(''message'', MessageHandler), (''error'', ErrorHandler), (''open'', OpenHandler)]\<rparr>,
          \<lparr>es_url = ''http://test.com/events'', es_withCredentials = None,
            es_closed = True, es_listeners =
              [(''message'', MessageHandler), (''error'', ErrorHandler), (''open'', OpenHandler)]\<rparr>,
          \<lparr>es_url = ''http://test.com/events'', es_withCredentials = None,
            es_closed = False, es_listeners = []\<rparr>],
       timeouts = [],
       timeoutsSet = 1,
       calls = [CalledOnError TransportEvent],
       effectSource = Some 0\<rparr>"
  unfolding run_steps(3) trace_error_reconnect
  by (simp add: eval_defs)

lemma trace_two_errors:
  "run braces test_url observed [transport_error, transport_error] =
     \<lparr>status = ERROR,
       data = None,
       error = Some (SSEError ''EventSource failed'' (Some ''CONNECTION_ERROR'')),
       retryCount = 0,
       eventSourceRef = Some 0,
       retryTimeoutRef = Some 2,
       isMounted = True,
       sources =
         [\<lparr>es_url = ''http://test.com/events'', es_withCredentials = None,
            es_closed = False, es_listeners =
              [(''message'', MessageHandler), (''error'', ErrorHandler), (''open'', OpenHandler)]\<rparr>],
       timeouts = [Timeout 1 0 (Finite 1000), Timeout 2 0 (Finite 1000)],
       timeoutsSet = 2,
       calls = [CalledOnError TransportEvent, CalledOnError TransportEvent],
       effectSource = Some 0\<rparr>"
  unfolding run_steps(2) trace_error
  by (simp add: eval_defs)

lemma trace_two_errors_close:
  "run braces test_url observed [transport_error, transport_error, Close] =
     \<lparr>status = CLOSED,
       data = None,
       error = Some (SSEError ''EventSource failed'' (Some ''CONNECTION_ERROR'')),
       retryCount = 0,
       eventSourceRef = None,
       retryTimeoutRef = Some 2,
       isMounted = True,
       sources =
         [\<lparr>es_url = ''http://test.com/events'', es_withCredentials = None,
            es_closed = True, es_listeners =
              [(''message'', MessageHandler), (''error'', ErrorHandler), (''open'', OpenHandler)]\<rparr>],
       timeouts = [Timeout 1 0 (Finite 1000)],
       timeoutsSet = 2,
       calls = [CalledOnError TransportEvent, CalledOnError TransportEvent, CalledOnClose],
       effectSource = Some 0\<rparr>"
  unfolding run_steps(3) trace_two_errors
  by (simp add: eval_defs)

lemma trace_two_errors_close_retry:
  "run braces test_url observed [transport_error, transport_error, Close, Fire 1] =
     \<lparr>status = CONNECTING,
       data = None,
       error = Some (SSEError ''EventSource failed'' (Some ''CONNECTION_ERROR'')),
       retryCount = 1,
       eventSourceRef = Some 1,
       retryTimeoutRef = Some 2,
       isMounted = True,
       sources =
         [\<lparr>es_url = ''http://test.com/events'', es_withCredentials = None,
            es_closed = True, es_listeners =
              [(''message'', MessageHandler), (''error'', ErrorHandler), (''open'', OpenHandler)]\<rparr>,
          \<lparr>es_url = ''http://test.com/events'', es_withCredentials = None,
            es_closed = False, es_listeners = []\<rparr>],
       timeouts = [],
       timeoutsSet = 2,
       calls = [CalledOnError TransportEvent, CalledOnError TransportEvent, CalledOnClose],
       effectSource = Some 0\<rparr>"
  unfolding run_steps(4) trace_two_errors_close
  by (simp add: eval_defs)

lemma trace_open:
  "run braces test_url observed [transport_open] =
     \<lparr>status = OPEN,
       data = None,
       error = None,
       retryCount = 0,
       eventSourceRef = Some 0,
       retryTimeoutRef = None,
       isMounted = True,
       sources =
         [\<lparr>es_url = ''http://test.com/events'', es_withCredentials = None,
            es_closed = False, es_listeners =
              [(''message'', MessageHandler), (''error'', ErrorHandler), (''open'', OpenHandler)]\<rparr>],
       timeouts = [],
       timeoutsSet = 0,
       calls = [CalledOnOpen],
       effectSource = Some 0\<rparr>"
  unfolding run_steps(1) trace_mounted
  by (simp add: eval_defs)

lemma trace_open_bad:
  "run braces test_url observed [transport_open, bad_message] =
     \<lparr>status = OPEN,
       data = None,
       error = Some (SSEError ''Failed to parse event data'' (Some ''PARSE_ERROR'')),
       retryCount = 0,
       eventSourceRef = Some 0,
       retryTimeoutRef = None,
       isMounted = True,
       sources =
         [\<lparr>es_url = ''http://test.com/events'', es_withCredentials = None,
            es_closed = False, es_listeners =
              [(''message'', MessageHandler), (''error'', ErrorHandler), (''open'', OpenHandler)]\<rparr>],
       timeouts = [],
       timeoutsSet = 0,
       calls =
         [CalledOnOpen,
          CalledOnError
            (ErrorEvent
              (SSEError ''Failed to parse event data'' (Some ''PARSE_ERROR'')))],
       effectSource = Some 0\<rparr>"
  unfolding run_steps(2) trace_open
  by (simp add: eval_defs)

lemma trace_open_good:
  "run braces test_url observed [transport_open, good_message] =
     \<lparr>status = OPEN,
       data = Some ''{}'',
       error = None,
       retryCount = 0,
       eventSourceRef = Some 0,
       retryTimeoutRef = None,
       isMounted = True,
       sources =
         [\<lparr>es_url = ''http://test.com/events'', es_withCredentials = None,
            es_closed = False, es_listeners =
              [(''message'', MessageHandler), (''error'', ErrorHandler), (''open'', OpenHandler)]\<rparr>],
       timeouts = [],
       timeoutsSet = 0,
       calls = [CalledOnOpen, CalledOnMessage ''{}''],
       effectSource = Some 0\<rparr>"
  unfolding run_steps(2) trace_open
  by (simp add: eval_defs)

lemma trace_open_unmount:
  "run braces test_url observed [transport_open, Unmount] =
     \<lparr>status = OPEN,
       data = None,
       error = None,
       retryCount = 0,
       eventSourceRef = Some 0,
       retryTimeoutRef = None,
       isMounted = False,
       sources =
         [\<lparr>es_url = ''http://test.com/events'', es_withCredentials = None,
            es_closed = True, es_listeners = []\<rparr>],
       timeouts = [],
       timeoutsSet = 0,
       calls = [CalledOnOpen],
       effectSource = None\<rparr>"
  unfolding run_steps(2) trace_open
  by (simp add: eval_defs)

lemma trace_render:
  "run braces test_url observed [Render] =
     \<lparr>status = CONNECTING,
       data = None,
       error = None,
       retryCount = 0,
       eventSourceRef = Some 1,
       retryTimeoutRef = None,
       isMounted = True,
       sources =
         [\<lparr>es_url = ''http://test.com/events'', es_withCredentials = None,
            es_closed = True, es_listeners = []\<rparr>,
          \<lparr>es_url = ''http://test.com/events'', es_withCredentials = None,
            es_closed = False, es_listeners =
              [(''message'', MessageHandler), (''error'', ErrorHandler), (''open'', OpenHandler)]\<rparr>],
       timeouts = [],
       timeoutsSet = 0,
       calls = [],
       effectSource = Some 1\<rparr>"
  unfolding run_steps(1) trace_mounted
  by (simp add: eval_defs)

lemma trace_render_open:
  "run braces test_url observed [Render, Emit 1 ''open'' [] 0 (Finite 1000)] =
     \<lparr>status = OPEN,
       data = None,
       error = None,
       retryCount = 0,
       eventSourceRef = Some 1,
       retryTimeoutRef = None,
       isMounted = True,
       sources =
         [\<lparr>es_url = ''http://test.com/events'', es_withCredentials = None,
            es_closed = True, es_listeners = []\<rparr>,
          \<lparr>es_url = ''http://test.com/events'', es_withCredentials = None,
            es_closed = False, es_listeners =
              [(''message'', MessageHandler), (''error'', ErrorHandler), (''open'', OpenHandler)]\<rparr>],
       timeouts = [],
       timeoutsSet = 0,
       calls = [CalledOnOpen],
       effectSource = Some 1\<rparr>"
  unfolding run_steps(2) trace_render
  by (simp add: eval_defs)

lemma trace_error_render:
  "run braces test_url observed [transport_error, Render] =
     \<lparr>status = CONNECTING,
       data = None,
       error = Some (SSEError ''EventSource failed'' (Some ''CONNECTION_ERROR'')),
       retryCount = 0,
       eventSourceRef = Some 1,
       retryTimeoutRef = Some 1,
       isMounted = True,
       sources =
         [\<lparr>es_url = ''http://test.com/events'', es_withCredentials = None,
            es_closed = True, es_listeners = []\<rparr>,
          \<lparr>es_url = ''http://test.com/events'', es_withCredentials = None,
            es_closed = False, es_listeners =
              [(''message'', MessageHandler), (''error'', ErrorHandler), (''open'', OpenHandler)]\<rparr>],
       timeouts = [],
       timeoutsSet = 1,
       calls = [CalledOnError TransportEvent],
       effectSource = Some 1\<rparr>"
  unfolding run_steps(2) trace_error
  by (simp add: eval_defs)

lemma trace_error_render_open:
  "run braces test_url observed [transport_error, Render, Emit 1 ''open'' [] 0 (Finite 1000)] =
     \<lparr>status = OPEN,
       data = None,
       error = None,
       retryCount = 0,
       eventSourceRef = Some 1,
       retryTimeoutRef = Some 1,
       isMounted = True,
       sources =
         [\<lparr>es_url = ''http://test.com/events'', es_withCredentials = None,
            es_closed = True, es_listeners = []\<rparr>,
          \<lparr>es_url = ''http://test.com/events'', es_withCredentials = None,
            es_closed = False, es_listeners =
              [(''message'', MessageHandler), (''error'', ErrorHandler), (''open'', OpenHandler)]\<rparr>],
       timeouts = [],
       timeoutsSet = 1,
       calls = [CalledOnError TransportEvent, CalledOnOpen],
       effectSource = Some 1\<rparr>"
  unfolding run_steps(3) trace_error_render
  by (simp add: eval_defs)

section \<open>The handlers\<close>

lemma attemptReconnect_keeps_error:
  "error s \<noteq> None \<Longrightarrow> error (attemptReconnect opts delay n s) \<noteq> None"
  by (simp add: attemptReconnect_def setTimeout_def Let_def)

lemma errorHandler_keeps_error:
  assumes "error s \<noteq> None"
  shows "error (errorHandler opts n delay s) \<noteq> None"
proof (cases "isMounted s")
  case False
  with assms show ?thesis by (simp add: errorHandler_fields)
next
  case True
  define s1 where
    "s1 = s\<lparr>status := ERROR,
            error := Some (SSEError ''EventSource failed'' (Some ''CONNECTION_ERROR'')),
            calls := calls s @ (if onError opts then [CalledOnError TransportEvent] else [])\<rparr>"
  have e1: "error s1 \<noteq> None" by (simp add: s1_def)
  show ?thesis
  proof (cases "shouldRetry_call (retryConfig (retry opts))
                  (SSEError ''EventSource failed'' (Some ''CONNECTION_ERROR'')) n")
    case retry: True
    with True have "errorHandler opts n delay s = attemptReconnect opts delay n s1"
      by (simp add: errorHandler_def Let_def s1_def)
    with attemptReconnect_keeps_error[OF e1] show ?thesis by simp
  next
    case False
    with True have "errorHandler opts n delay s = s1"
      by (simp add: errorHandler_def Let_def s1_def)
    with e1 show ?thesis by simp
  qed
qed

text \<open>
  C3. On a mounted hook the open handler sets the status to \<open>OPEN\<close>, clears the
  error, resets \<open>retryCount\<close> to 0 and invokes \<^verbatim>\<open>onOpen\<close> when the consumer
  registered it, and changes nothing else. The message handler and the error handler
  never change \<open>retryCount\<close> and never clear an error that is present.
\<close>

theorem openHandler_resets:
  "(isMounted s \<longrightarrow>
      openHandler opts s =
        s\<lparr>status := OPEN, error := None, retryCount := 0,
          calls := calls s @ (if onOpen opts then [CalledOnOpen] else [])\<rparr>)
   \<and> retryCount (messageHandler JSON_parse opts event_data s) = retryCount s
   \<and> retryCount (errorHandler opts n delay s) = retryCount s
   \<and> (error s \<noteq> None \<longrightarrow>
        error (messageHandler JSON_parse opts event_data s) \<noteq> None
        \<and> error (errorHandler opts n delay s) \<noteq> None)"
proof (intro conjI impI)
  assume "isMounted s"
  then show "openHandler opts s =
        s\<lparr>status := OPEN, error := None, retryCount := 0,
          calls := calls s @ (if onOpen opts then [CalledOnOpen] else [])\<rparr>"
    by (simp add: openHandler_def)
next
  show "retryCount (messageHandler JSON_parse opts event_data s) = retryCount s"
    by (rule messageHandler_fields)
  show "retryCount (errorHandler opts n delay s) = retryCount s"
    by (rule errorHandler_fields)
next
  assume e: "error s \<noteq> None"
  from messageHandler_fields(7)[of JSON_parse opts event_data s] e
  show "error (messageHandler JSON_parse opts event_data s) \<noteq> None" by auto
  from e show "error (errorHandler opts n delay s) \<noteq> None"
    by (rule errorHandler_keeps_error)
qed

text \<open>
  The theorem after a failed connection and one retry, where the error is set and
  \<open>retryCount\<close> is 1.
\<close>

theorem openHandler_resets_witness:
  "isMounted (run braces test_url observed [transport_error, Fire 1])
   \<and> error (run braces test_url observed [transport_error, Fire 1]) \<noteq> None
   \<and> retryCount (run braces test_url observed [transport_error, Fire 1]) = 1
   \<and> status (openHandler observed (run braces test_url observed [transport_error, Fire 1])) = OPEN
   \<and> error (openHandler observed (run braces test_url observed [transport_error, Fire 1])) = None
   \<and> retryCount (openHandler observed (run braces test_url observed [transport_error, Fire 1])) = 0
   \<and> calls (openHandler observed (run braces test_url observed [transport_error, Fire 1]))
       = [CalledOnError TransportEvent, CalledOnOpen]
   \<and> retryCount (messageHandler braces observed ''{}''
         (run braces test_url observed [transport_error, Fire 1])) = 1
   \<and> error (messageHandler braces observed ''{}''
         (run braces test_url observed [transport_error, Fire 1])) \<noteq> None
   \<and> retryCount (errorHandler observed 1 (Finite 1000)
         (run braces test_url observed [transport_error, Fire 1])) = 1
   \<and> error (errorHandler observed 1 (Finite 1000)
         (run braces test_url observed [transport_error, Fire 1])) \<noteq> None"
  using openHandler_resets
          [where s = "run braces test_url observed [transport_error, Fire 1]"
             and opts = observed and JSON_parse = braces and event_data = "''{}''"
             and n = 1 and delay = "Finite 1000"]
  unfolding trace_error_retry by (simp add: observed_def)

text \<open>
  C4. When the hook is mounted and \<^verbatim>\<open>shouldRetry\<close>, called with the connection
  error and the attempt count the handler reads, does not return true, the error
  handler sets the status to \<open>ERROR\<close> and the error to the connection error, invokes
  \<^verbatim>\<open>onError\<close> when registered, and changes nothing else: no timeout is set and
  \<open>retryCount\<close> keeps its value.
\<close>

theorem errorHandler_no_retry:
  assumes "isMounted s"
    and "\<not> shouldRetry_call (retryConfig (retry opts))
            (SSEError ''EventSource failed'' (Some ''CONNECTION_ERROR'')) n"
  shows "errorHandler opts n delay s =
           s\<lparr>status := ERROR,
             error := Some (SSEError ''EventSource failed'' (Some ''CONNECTION_ERROR'')),
             calls := calls s @ (if onError opts then [CalledOnError TransportEvent] else [])\<rparr>
         \<and> timeouts (errorHandler opts n delay s) = timeouts s
         \<and> retryTimeoutRef (errorHandler opts n delay s) = retryTimeoutRef s
         \<and> retryCount (errorHandler opts n delay s) = retryCount s"
  using assms by (simp add: errorHandler_def Let_def)

text \<open>The theorem for \<^verbatim>\<open>shouldRetry: () => false\<close>, at the first error after the mount.\<close>

theorem errorHandler_no_retry_witness:
  "isMounted (run braces test_url never_retry [])
   \<and> \<not> shouldRetry_call (retryConfig (retry never_retry))
         (SSEError ''EventSource failed'' (Some ''CONNECTION_ERROR'')) 0
   \<and> status (errorHandler never_retry 0 (Finite 1000) (run braces test_url never_retry [])) = ERROR
   \<and> error (errorHandler never_retry 0 (Finite 1000) (run braces test_url never_retry []))
       = Some (SSEError ''EventSource failed'' (Some ''CONNECTION_ERROR''))
   \<and> timeouts (errorHandler never_retry 0 (Finite 1000) (run braces test_url never_retry [])) = []
   \<and> retryCount (errorHandler never_retry 0 (Finite 1000) (run braces test_url never_retry [])) = 0"
  using errorHandler_no_retry
          [where s = "run braces test_url never_retry []" and opts = never_retry and n = 0
             and delay = "Finite 1000"]
  by (simp add: run_Nil mount_fields never_retry_def shouldRetry_call_def retryConfig_simps
        spread_def)

text \<open>
  C6. When the hook is mounted and the payload of a message does not decode (the
  consumer's \<^verbatim>\<open>parseData\<close> throws, or without one \<^verbatim>\<open>JSON.parse\<close> does), the message
  handler sets the error to the parse error with code \<^verbatim>\<open>PARSE_ERROR\<close>, invokes
  \<^verbatim>\<open>onError\<close> when registered, and changes nothing else: the status and the data are
  as before.
\<close>

theorem messageHandler_parse_failure:
  assumes "isMounted s"
    and "(case parseData opts of Some parse \<Rightarrow> parse event_data
          | None \<Rightarrow> JSON_parse event_data) = None"
  shows "messageHandler JSON_parse opts event_data s =
           s\<lparr>error := Some (SSEError ''Failed to parse event data'' (Some ''PARSE_ERROR'')),
             calls := calls s @
               (if onError opts
                then [CalledOnError
                        (ErrorEvent
                           (SSEError ''Failed to parse event data'' (Some ''PARSE_ERROR'')))]
                else [])\<rparr>
         \<and> status (messageHandler JSON_parse opts event_data s) = status s
         \<and> data (messageHandler JSON_parse opts event_data s) = data s"
  using assms by (simp add: messageHandler_def Let_def)

text \<open>
  The theorem for the payload \<^verbatim>\<open>invalid-json\<close> on an open connection that has delivered the
  payload \<^verbatim>\<open>{}\<close>.
\<close>

theorem messageHandler_parse_failure_witness:
  "isMounted (run braces test_url observed [transport_open, good_message])
   \<and> (case parseData observed of Some parse \<Rightarrow> parse ''invalid-json'' | None \<Rightarrow> braces ''invalid-json'') = None
   \<and> status (messageHandler braces observed ''invalid-json''
         (run braces test_url observed [transport_open, good_message])) = OPEN
   \<and> data (messageHandler braces observed ''invalid-json''
         (run braces test_url observed [transport_open, good_message])) = Some ''{}''
   \<and> error (messageHandler braces observed ''invalid-json''
         (run braces test_url observed [transport_open, good_message]))
       = Some (SSEError ''Failed to parse event data'' (Some ''PARSE_ERROR''))
   \<and> calls (messageHandler braces observed ''invalid-json''
         (run braces test_url observed [transport_open, good_message]))
       = [CalledOnOpen, CalledOnMessage ''{}'',
          CalledOnError (ErrorEvent (SSEError ''Failed to parse event data'' (Some ''PARSE_ERROR'')))]"
  using messageHandler_parse_failure
          [where s = "run braces test_url observed [transport_open, good_message]"
             and opts = observed and event_data = "''invalid-json''" and JSON_parse = braces]
  unfolding trace_open_good by (simp add: observed_def braces_def)

lemma errorHandler_at_limit:
  assumes "isMounted s" and "maxAttempts (retryConfig (retry opts)) \<le> int n"
  shows "errorHandler opts n delay s =
           s\<lparr>status := ERROR,
             error := Some
               (if shouldRetry_call (retryConfig (retry opts))
                     (SSEError ''EventSource failed'' (Some ''CONNECTION_ERROR'')) n
                then SSEError
                       (''Failed to connect after ''
                          @ show_int (maxAttempts (retryConfig (retry opts))) @ '' attempts'')
                       (Some ''MAX_RETRY_EXCEEDED'')
                else SSEError ''EventSource failed'' (Some ''CONNECTION_ERROR'')),
             calls := calls s @ (if onError opts then [CalledOnError TransportEvent] else [])\<rparr>"
  using assms by (simp add: errorHandler_def Let_def attemptReconnect_def)

text \<open>
  C2, as the code has it. When the hook is mounted and the attempt count that the error
  handler reads has reached \<^verbatim>\<open>maxAttempts\<close>, the handler sets the status to
  \<open>ERROR\<close>, sets no timeout and opens no connection. It consults \<^verbatim>\<open>shouldRetry\<close>
  first: where the predicate returns true the error becomes the one with code
  \<^verbatim>\<open>MAX_RETRY_EXCEEDED\<close>; where it does not (or there is none) the error stays the
  connection error. The three codes are different.
\<close>

theorem errorHandler_attempts_exhausted:
  assumes "isMounted s" and "maxAttempts (retryConfig (retry opts)) \<le> int n"
  shows "status (errorHandler opts n delay s) = ERROR
         \<and> timeouts (errorHandler opts n delay s) = timeouts s
         \<and> retryTimeoutRef (errorHandler opts n delay s) = retryTimeoutRef s
         \<and> sources (errorHandler opts n delay s) = sources s
         \<and> retryCount (errorHandler opts n delay s) = retryCount s
         \<and> error (errorHandler opts n delay s) =
             Some
               (if shouldRetry_call (retryConfig (retry opts))
                     (SSEError ''EventSource failed'' (Some ''CONNECTION_ERROR'')) n
                then SSEError
                       (''Failed to connect after ''
                          @ show_int (maxAttempts (retryConfig (retry opts))) @ '' attempts'')
                       (Some ''MAX_RETRY_EXCEEDED'')
                else SSEError ''EventSource failed'' (Some ''CONNECTION_ERROR''))
         \<and> ''MAX_RETRY_EXCEEDED'' \<noteq> ''CONNECTION_ERROR''
         \<and> ''MAX_RETRY_EXCEEDED'' \<noteq> ''PARSE_ERROR''"
  by (simp add: errorHandler_at_limit[OF assms])

text \<open>
  The theorem for the default configuration, where \<^verbatim>\<open>shouldRetry\<close> is always true,
  at an error whose handler reads the attempt count 3.
\<close>

theorem errorHandler_attempts_exhausted_witness:
  "isMounted (run braces test_url observed [])
   \<and> maxAttempts (retryConfig (retry observed)) \<le> int 3
   \<and> status (errorHandler observed 3 (Finite 1000) (run braces test_url observed [])) = ERROR
   \<and> timeouts (errorHandler observed 3 (Finite 1000) (run braces test_url observed [])) = []
   \<and> error (errorHandler observed 3 (Finite 1000) (run braces test_url observed []))
       = Some (SSEError ''Failed to connect after 3 attempts'' (Some ''MAX_RETRY_EXCEEDED''))"
  using errorHandler_attempts_exhausted
          [where s = "run braces test_url observed []" and opts = observed and n = 3
             and delay = "Finite 1000"]
  unfolding trace_mounted
  by (simp add: observed_def shouldRetry_call_def retryConfig_simps DEFAULT_RETRY_CONFIG_def
        show_int_def show_nat.simps[of 3] digit_def)

text \<open>
  C2 as stated fails where \<^verbatim>\<open>shouldRetry\<close> returns false. With
  \<^verbatim>\<open>shouldRetry: (error, attemptCount) => attemptCount < 3\<close> and the default
  \<^verbatim>\<open>maxAttempts\<close> of 3, an error whose handler reads the attempt count 3 leaves the
  connection error in place: the code of the error is not \<^verbatim>\<open>MAX_RETRY_EXCEEDED\<close>.
\<close>

theorem errorHandler_exhausted_without_retry:
  "\<not> (status (errorHandler retry_below_three 3 (Finite 1000) (run braces test_url retry_below_three []))
         = ERROR
       \<and> map_option code
           (error (errorHandler retry_below_three 3 (Finite 1000)
              (run braces test_url retry_below_three [])))
         = Some (Some ''MAX_RETRY_EXCEEDED''))"
  using errorHandler_at_limit
          [where s = "run braces test_url retry_below_three []" and opts = retry_below_three
             and n = 3 and delay = "Finite 1000"]
  by (simp add: run_Nil mount_fields retry_below_three_def shouldRetry_call_def
        retryConfig_simps spread_def)

section \<open>Reachable states\<close>

text \<open>
  C8, as the code has it. In every state the hook reaches, through events, timeouts,
  \<^verbatim>\<open>close()\<close>, \<^verbatim>\<open>reconnect()\<close>, renders and the unmount in any order, the status
  \<open>OPEN\<close> implies that there is a current \<^verbatim>\<open>EventSource\<close>, which is not closed
  while the hook is mounted, and that the error is absent or is the parse error: a
  message that does not decode sets the error and leaves the status \<open>OPEN\<close>, and the
  unmount closes the \<^verbatim>\<open>EventSource\<close> and leaves the cells as they are.
\<close>

theorem open_status_invariant:
  "status (run JSON_parse url opts acts) = OPEN \<longrightarrow>
     (\<exists>h. eventSourceRef (run JSON_parse url opts acts) = Some h
          \<and> h < length (sources (run JSON_parse url opts acts))
          \<and> (isMounted (run JSON_parse url opts acts)
                \<longrightarrow> \<not> es_closed (sources (run JSON_parse url opts acts) ! h)))
     \<and> (error (run JSON_parse url opts acts) = None
        \<or> error (run JSON_parse url opts acts)
             = Some (SSEError ''Failed to parse event data'' (Some ''PARSE_ERROR'')))"
proof
  let ?s = "run JSON_parse url opts acts"
  assume o: "status ?s = OPEN"
  have w: "wf opts ?s" by (rule wf_run)
  from wf_status(1)[OF w o] obtain h where h: "eventSourceRef ?s = Some h" by blast
  from wf_ref(1)[OF w h] wf_ref(2)[OF w h] h
  have "\<exists>h. eventSourceRef ?s = Some h \<and> h < length (sources ?s)
          \<and> (isMounted ?s \<longrightarrow> \<not> es_closed (sources ?s ! h))"
    by blast
  with wf_status(2)[OF w o]
  show "(\<exists>h. eventSourceRef ?s = Some h \<and> h < length (sources ?s)
          \<and> (isMounted ?s \<longrightarrow> \<not> es_closed (sources ?s ! h)))
     \<and> (error ?s = None
        \<or> error ?s = Some (SSEError ''Failed to parse event data'' (Some ''PARSE_ERROR'')))"
    by blast
qed

text \<open>
  The theorem after a render and the open signal on the \<^verbatim>\<open>EventSource\<close> that the
  re-run effect opened, and after the open signal and a message that does not decode.
\<close>

theorem open_status_invariant_witness:
  "(status (run braces test_url observed [Render, Emit 1 ''open'' [] 0 (Finite 1000)]) = OPEN
      \<and> isMounted (run braces test_url observed [Render, Emit 1 ''open'' [] 0 (Finite 1000)])
      \<and> eventSourceRef (run braces test_url observed [Render, Emit 1 ''open'' [] 0 (Finite 1000)])
          = Some 1
      \<and> \<not> es_closed
            (sources (run braces test_url observed [Render, Emit 1 ''open'' [] 0 (Finite 1000)]) ! 1)
      \<and> error (run braces test_url observed [Render, Emit 1 ''open'' [] 0 (Finite 1000)]) = None)
   \<and> (status (run braces test_url observed [transport_open, bad_message]) = OPEN
      \<and> (\<exists>h. eventSourceRef (run braces test_url observed [transport_open, bad_message]) = Some h
             \<and> h < length (sources (run braces test_url observed [transport_open, bad_message])))
      \<and> error (run braces test_url observed [transport_open, bad_message])
          = Some (SSEError ''Failed to parse event data'' (Some ''PARSE_ERROR'')))"
  using open_status_invariant
          [of braces test_url observed "[Render, Emit 1 ''open'' [] 0 (Finite 1000)]"]
        open_status_invariant [of braces test_url observed "[transport_open, bad_message]"]
  unfolding trace_render_open trace_open_bad by simp

text \<open>
  C8 as stated fails in two ways. After the open signal and then the payload
  \<^verbatim>\<open>invalid-json\<close> the status is \<open>OPEN\<close> with the error set. After the open signal
  and then the unmount the status is still \<open>OPEN\<close> and the \<^verbatim>\<open>EventSource\<close> that
  \<open>eventSourceRef\<close> holds is closed.
\<close>

theorem open_with_parse_error:
  "\<not> (status (run braces test_url observed [transport_open, bad_message]) = OPEN \<longrightarrow>
        eventSourceRef (run braces test_url observed [transport_open, bad_message]) \<noteq> None
        \<and> error (run braces test_url observed [transport_open, bad_message]) = None)
   \<and> \<not> (status (run braces test_url observed [transport_open, Unmount]) = OPEN \<longrightarrow>
        (\<exists>h. eventSourceRef (run braces test_url observed [transport_open, Unmount]) = Some h
             \<and> h < length (sources (run braces test_url observed [transport_open, Unmount]))
             \<and> \<not> es_closed (sources (run braces test_url observed [transport_open, Unmount]) ! h)))"
  unfolding trace_open_bad trace_open_unmount by simp

text \<open>
  C9, as the code has it. What the hook returns at the first render is \<open>initial\<close>: the
  status is \<open>CLOSED\<close>, and no \<^verbatim>\<open>EventSource\<close> exists yet, so no signal can arrive.
  The effect of that render opens the connection: after it, before any event, the
  status is \<open>CONNECTING\<close>, and every call of \<open>createEventSource\<close> sets it. The open
  signal on the connection of the mount makes the status \<open>OPEN\<close> with the error absent
  and \<open>retryCount\<close> 0. In every run, a step that makes the status \<open>OPEN\<close> is the
  delivery of an open signal, and leaves the error absent and \<open>retryCount\<close> 0.
\<close>

theorem status_connecting_then_open:
  "status (initial :: 'a hook) = CLOSED
   \<and> sources (initial :: 'a hook) = []
   \<and> status (run JSON_parse url (opts :: 'a UseSSEOptions) []) = CONNECTING
   \<and> status (snd (createEventSource url opts s)) = CONNECTING
   \<and> (status (run JSON_parse url opts [Emit 0 ''open'' d n delay]) = OPEN
      \<and> error (run JSON_parse url opts [Emit 0 ''open'' d n delay]) = None
      \<and> retryCount (run JSON_parse url opts [Emit 0 ''open'' d n delay]) = 0)
   \<and> (status (run JSON_parse url opts (acts @ [a])) = OPEN
        \<and> status (run JSON_parse url opts acts) \<noteq> OPEN \<longrightarrow>
        (\<exists>i d n delay. a = Emit i ''open'' d n delay)
        \<and> error (run JSON_parse url opts (acts @ [a])) = None
        \<and> retryCount (run JSON_parse url opts (acts @ [a])) = 0)"
proof (intro conjI impI)
  show "status (initial :: 'a hook) = CLOSED" "sources (initial :: 'a hook) = []"
    by (simp_all add: initial_def)
  show "status (run JSON_parse url opts []) = CONNECTING" by (simp add: run_Nil mount_fields)
  show "status (snd (createEventSource url opts s)) = CONNECTING"
    by (rule createEventSource_fields)
  show "status (run JSON_parse url opts [Emit 0 ''open'' d n delay]) = OPEN"
    "error (run JSON_parse url opts [Emit 0 ''open'' d n delay]) = None"
    "retryCount (run JSON_parse url opts [Emit 0 ''open'' d n delay]) = 0"
    by (rule open_after_mount)+
next
  assume a: "status (run JSON_parse url opts (acts @ [a])) = OPEN
             \<and> status (run JSON_parse url opts acts) \<noteq> OPEN"
  have w: "wf opts (run JSON_parse url opts acts)" by (rule wf_run)
  from a
  have "status (step JSON_parse url opts a (run JSON_parse url opts acts)) = OPEN"
    and "status (run JSON_parse url opts acts) \<noteq> OPEN"
    by (simp_all add: run_snoc)
  from status_becomes_open[OF w this]
  have r: "(\<exists>i d n delay. a = Emit i ''open'' d n delay)
     \<and> error (run JSON_parse url opts (acts @ [a])) = None
     \<and> retryCount (run JSON_parse url opts (acts @ [a])) = 0"
    by (simp add: run_snoc)
  from r show "\<exists>i d n delay. a = Emit i ''open'' d n delay" by blast
  from r show "error (run JSON_parse url opts (acts @ [a])) = None" by blast
  from r show "retryCount (run JSON_parse url opts (acts @ [a])) = 0" by blast
qed

text \<open>
  The theorem for a connection that failed, where the error is set before the open
  signal arrives on the second \<^verbatim>\<open>EventSource\<close>: the one that the effect opened
  when it ran again after the render that follows the error, and the one that
  \<^verbatim>\<open>reconnect()\<close> opened.
\<close>

theorem status_connecting_then_open_witness:
  "status (initial :: string hook) = CLOSED
   \<and> status (run braces test_url observed []) = CONNECTING
   \<and> status (run braces test_url observed [transport_open]) = OPEN
   \<and> status (run braces test_url observed [transport_error, Render]) = CONNECTING
   \<and> error (run braces test_url observed [transport_error, Render]) \<noteq> None
   \<and> status (run braces test_url observed
         ([transport_error, Render] @ [Emit 1 ''open'' [] 0 (Finite 1000)])) = OPEN
   \<and> error (run braces test_url observed
         ([transport_error, Render] @ [Emit 1 ''open'' [] 0 (Finite 1000)])) = None
   \<and> retryCount (run braces test_url observed
         ([transport_error, Render] @ [Emit 1 ''open'' [] 0 (Finite 1000)])) = 0
   \<and> status (run braces test_url observed [transport_error, Reconnect]) = CONNECTING
   \<and> error (run braces test_url observed [transport_error, Reconnect]) \<noteq> None
   \<and> status (run braces test_url observed
         ([transport_error, Reconnect] @ [Emit 1 ''open'' [] 0 (Finite 1000)])) = OPEN
   \<and> error (run braces test_url observed
         ([transport_error, Reconnect] @ [Emit 1 ''open'' [] 0 (Finite 1000)])) = None
   \<and> retryCount (run braces test_url observed
         ([transport_error, Reconnect] @ [Emit 1 ''open'' [] 0 (Finite 1000)])) = 0"
  using status_connecting_then_open
          [where JSON_parse = braces and url = test_url and opts = observed
             and acts = "[transport_error, Render]"
             and a = "Emit 1 ''open'' [] 0 (Finite 1000)"
             and d = "[]" and n = 0 and delay = "Finite 1000" and s = initial]
        status_connecting_then_open
          [where JSON_parse = braces and url = test_url and opts = observed
             and acts = "[transport_error, Reconnect]"
             and a = "Emit 1 ''open'' [] 0 (Finite 1000)"
             and d = "[]" and n = 0 and delay = "Finite 1000" and s = initial]
  unfolding append_Cons append_Nil trace_mounted trace_open trace_error_render
    trace_error_render_open trace_error_reconnect run_steps(3)
  by (simp add: eval_defs)

text \<open>
  C9 as stated fails at the first render: the status that the hook returns then is
  \<open>CLOSED\<close>, the value given to \<^verbatim>\<open>useState\<close>, and not \<open>CONNECTING\<close>.
\<close>

theorem status_closed_at_first_render:
  "\<not> (status (initial :: string hook) = CONNECTING)"
  by (simp add: initial_def)

section \<open>Closing and reconnecting\<close>

lemma close_twice: "close opts (close opts s) = close opts s"
  by (cases "eventSourceRef s"; cases "retryTimeoutRef s")
     (simp_all add: close_def clearRetryTimeout_def clearTimeout_def es_close_def
        update_source_def)

lemma close_current:
  assumes "eventSourceRef s = Some h" and "h < length (sources s)"
  shows "es_closed (sources (close opts s) ! h)"
    and "eventSourceRef (close opts s) = None"
    and "status (close opts s) = CLOSED"
    and "calls (close opts s) = calls s @ (if onClose opts then [CalledOnClose] else [])"
    and "timeouts (close opts s) =
           filter (\<lambda>x. Some (timeout_id x) \<noteq> retryTimeoutRef s) (timeouts s)"
  using assms
  by (cases "retryTimeoutRef s";
      simp add: close_def clearRetryTimeout_def clearTimeout_def es_close_def update_source_def)+

text \<open>
  C7 at two error signals in a row followed by \<^verbatim>\<open>close()\<close>. Each error signal sets a
  timeout, and the second overwrites \<open>retryTimeoutRef\<close> without clearing the first.
  \<^verbatim>\<open>close()\<close> closes the connection, sets the status to \<open>CLOSED\<close> and clears the
  second timeout; the first stays pending. When it fires, \<open>retryCount\<close> becomes 1 and
  a new \<^verbatim>\<open>EventSource\<close> is opened: the status is \<open>CONNECTING\<close> again.
\<close>

theorem close_leaves_earlier_retry:
  "timeouts (run braces test_url observed [transport_error, transport_error])
     = [Timeout 1 0 (Finite 1000), Timeout 2 0 (Finite 1000)]
   \<and> retryTimeoutRef (run braces test_url observed [transport_error, transport_error]) = Some 2
   \<and> status (run braces test_url observed [transport_error, transport_error, Close]) = CLOSED
   \<and> eventSourceRef (run braces test_url observed [transport_error, transport_error, Close])
       = None
   \<and> timeouts (run braces test_url observed [transport_error, transport_error, Close])
       = [Timeout 1 0 (Finite 1000)]
   \<and> status (run braces test_url observed [transport_error, transport_error, Close, Fire 1])
       = CONNECTING
   \<and> retryCount (run braces test_url observed [transport_error, transport_error, Close, Fire 1])
       = 1
   \<and> eventSourceRef
        (run braces test_url observed [transport_error, transport_error, Close, Fire 1])
       = Some 1
   \<and> length (sources
        (run braces test_url observed [transport_error, transport_error, Close, Fire 1])) = 2"
  unfolding trace_two_errors trace_two_errors_close trace_two_errors_close_retry by simp

text \<open>
  C5 at an error signal followed by \<^verbatim>\<open>reconnect()\<close>. \<open>reconnect\<close> never touches the
  timeouts. After the error signal a retry is pending; \<^verbatim>\<open>reconnect()\<close> resets
  \<open>retryCount\<close> and opens the second \<^verbatim>\<open>EventSource\<close> with the handlers bound, and
  the retry is still pending. When it fires, \<open>retryCount\<close> becomes 1, the second
  \<^verbatim>\<open>EventSource\<close> is closed and a third one is opened, with no listeners.
\<close>

theorem reconnect_leaves_retry_pending:
  "timeouts (reconnect url opts s) = timeouts s
   \<and> retryTimeoutRef (reconnect url opts s) = retryTimeoutRef s
   \<and> timeouts (run braces test_url observed [transport_error]) = [Timeout 1 0 (Finite 1000)]
   \<and> timeouts (run braces test_url observed [transport_error, Reconnect]) = [Timeout 1 0 (Finite 1000)]
   \<and> retryCount (run braces test_url observed [transport_error, Reconnect]) = 0
   \<and> eventSourceRef (run braces test_url observed [transport_error, Reconnect]) = Some 1
   \<and> es_listeners (sources (run braces test_url observed [transport_error, Reconnect]) ! 1)
       = listeners_bound observed
   \<and> retryCount (run braces test_url observed [transport_error, Reconnect, Fire 1]) = 1
   \<and> es_closed (sources (run braces test_url observed [transport_error, Reconnect, Fire 1]) ! 1)
   \<and> eventSourceRef (run braces test_url observed [transport_error, Reconnect, Fire 1]) = Some 2
   \<and> es_listeners (sources (run braces test_url observed [transport_error, Reconnect, Fire 1]) ! 2)
       = []"
  unfolding trace_error trace_error_reconnect trace_error_reconnect_retry
  by (simp add: reconnect_fields listeners_bound_def eventNameOrMessage_def observed_def)

end
